theory Spec2Isabelle
  imports Main "HOL-Library.Char_ord" "HOL-Library.List_Lexorder"
begin

section \<open>genjobs: the job transformation engine of prow/genjobs/cmd/genjobs/main.go\<close>

text \<open>
  The Go program rewrites Prow job definitions so that they run against private mirrors.
  This theory embeds its pure decision and merge logic. Go strings are byte strings
  (\<open>len\<close> and slicing count bytes), so a Go \<open>string\<close> is a \<open>char list\<close>. A Go map is
  a partial function; a map that may be \<open>nil\<close> is an \<open>option\<close> of one. A pointer that
  may be \<open>nil\<close> is an \<open>option\<close>. A run-time panic (caught once, in \<open>handleRecover\<close>, which
  ends the process) is the left summand of the result.
\<close>

subsection \<open>Constants (main.go, lines 38-47)\<close>

definition filenameSeparator :: string where
  "filenameSeparator = ''.''"

definition jobnameSeparator :: string where
  "jobnameSeparator = ''_''"

definition gitHost :: string where
  "gitHost = ''github.com''"

definition maxLabelLen :: int where
  "maxLabelLen = 63"

definition defaultModifier :: string where
  "defaultModifier = ''private''"

definition defaultCluster :: string where
  "defaultCluster = ''default''"

definition yamlExt :: string where
  "yamlExt = ''.(yml|yaml)$''"

subsection \<open>Panics and results\<close>

datatype panic = NilPointerDereference | SliceBoundsOutOfRange | RegexpCompileError

text \<open>Sequencing of two steps where the first may panic.\<close>

definition andThen :: "panic + 'a \<Rightarrow> ('a \<Rightarrow> panic + 'b) \<Rightarrow> panic + 'b" where
  "andThen r f = (case r of Inl e \<Rightarrow> Inl e | Inr v \<Rightarrow> f v)"

subsection \<open>Data: the Kubernetes and Prow structures the program reads and writes\<close>

text \<open>
  Only the fields the program touches, and a few beside them that it must carry along
  unchanged, are kept. Field names are the Go names, prefixed with the structure's name
  where two structures share a field name.
\<close>

record EnvVar =
  EnvVar_Name :: string
  EnvVar_Value :: string
  EnvVar_ValueFrom :: "string option"

record Volume =
  Volume_Name :: string
  Volume_VolumeSource :: string

record VolumeMount =
  VolumeMount_Name :: string
  VolumeMount_ReadOnly :: bool
  VolumeMount_MountPath :: string

record Container =
  Container_Name :: string
  Container_Image :: string
  Container_Env :: "EnvVar list"
  Container_VolumeMounts :: "VolumeMount list"

record PodSpec =
  PodSpec_Volumes :: "Volume list"
  PodSpec_Containers :: "Container list"
  PodSpec_NodeSelector :: "(string \<rightharpoonup> string) option"

record Preset =
  Preset_Labels :: "string \<rightharpoonup> string"
  Preset_Env :: "EnvVar list"
  Preset_Volumes :: "Volume list"
  Preset_VolumeMounts :: "VolumeMount list"

record Refs =
  Refs_Org :: string
  Refs_Repo :: string
  Refs_BaseRef :: string
  Refs_PathAlias :: string
  Refs_CloneURI :: string

record GCSConfiguration =
  GCSConfiguration_Bucket :: string
  GCSConfiguration_PathPrefix :: string

record DecorationConfig =
  DecorationConfig_GCSConfiguration :: "GCSConfiguration option"
  DecorationConfig_GCSCredentialsSecret :: string
  DecorationConfig_SSHKeySecrets :: "string list"

record SlackReporterConfig =
  SlackReporterConfig_Channel :: string
  SlackReporterConfig_ReportTemplate :: string

record ReporterConfig =
  ReporterConfig_Slack :: "SlackReporterConfig option"

text \<open>
  \<open>config.JobBase\<close> embeds \<open>config.UtilityConfig\<close>, and \<open>config.Periodic\<close> embeds
  \<open>config.JobBase\<close>: the Go code writes \<open>job.CloneURI\<close> and \<open>job.ExtraRefs\<close> on a
  \<open>JobBase\<close>, and passes \<open>&job.JobBase\<close> of a periodic job. Record extension gives the
  same: a function on every extension of \<open>UtilityConfig\<close> applies to a \<open>JobBase\<close>, and
  one on every extension of \<open>JobBase\<close> applies to a \<open>Periodic\<close>.
\<close>

record UtilityConfig =
  PathAlias :: string
  CloneURI :: string
  ExtraRefs :: "Refs list"
  DecorationConfig :: "DecorationConfig option"

record JobBase = UtilityConfig +
  Name :: string
  Labels :: "(string \<rightharpoonup> string) option"
  Annotations :: "(string \<rightharpoonup> string) option"
  Agent :: string
  Cluster :: string
  Spec :: "PodSpec option"
  ReporterConfig :: "ReporterConfig option"

record Periodic = JobBase +
  Interval :: string
  Cron :: string

subsection \<open>The command-line options (main.go, lines 49-75)\<close>

record options =
  bucket :: string
  cluster :: string
  channel :: string
  sshKeySecret :: string
  modifier :: string
  "input" :: string
  "output" :: string
  branches :: "string list"
  presets :: "string list"
  selector :: "string \<rightharpoonup> string"
  labels :: "string \<rightharpoonup> string"
  env :: "string \<rightharpoonup> string"
  orgMap :: "string \<rightharpoonup> string"
  jobWhitelist :: "string set"
  jobBlacklist :: "string set"
  repoWhitelist :: "string set"
  repoBlacklist :: "string set"
  jobType :: "string set"
  clean :: bool
  dryRun :: bool
  extraRefs :: bool
  resolve :: bool
  sshClone :: bool
  overrideSelector :: bool

text \<open>The values \<open>parseFlags\<close> gives when no flag is passed (main.go, lines 87-119).\<close>

definition defaultOptions :: options where
  "defaultOptions =
     \<lparr> bucket = '''', cluster = '''', channel = '''', sshKeySecret = '''',
       modifier = defaultModifier, input = ''.'', output = ''.'',
       branches = [], presets = [],
       selector = Map.empty, labels = Map.empty, env = Map.empty, orgMap = Map.empty,
       jobWhitelist = {}, jobBlacklist = {}, repoWhitelist = {}, repoBlacklist = {},
       jobType = {''presubmit'', ''postsubmit'', ''periodic''},
       clean = False, dryRun = False, extraRefs = False, resolve = False,
       sshClone = False, overrideSelector = False \<rparr>"

subsection \<open>What the program calls outside main.go\<close>

text \<open>
  \<open>regexp.MustCompile\<close> is Go's standard library; the \<open>util\<close> package is part of the
  repository but not among its sources here. Both are parameters of the model: every
  theorem below holds for whatever these functions compute.

  \<^item> \<open>regexp_Compile p\<close> is \<open>None\<close> when \<open>regexp.MustCompile(p)\<close> panics, and otherwise
    the compiled expression's \<open>MatchString\<close>.
  \<^item> The other fields are the functions of package \<open>util\<close> that main.go calls.
\<close>

record extern =
  regexp_Compile :: "string \<Rightarrow> (string \<Rightarrow> bool) option"
  HasExtension :: "string \<Rightarrow> string \<Rightarrow> bool"
  SplitOrgRepo :: "string \<Rightarrow> string \<times> string"
  GetTopLevelOrg :: "string \<Rightarrow> string"
  RemoveHost :: "string \<Rightarrow> string"
  RenameFile :: "string \<Rightarrow> string \<Rightarrow> string \<Rightarrow> string"
  SortedKeys :: "(string \<rightharpoonup> string) \<Rightarrow> string list"

subsection \<open>Go's maps and strings\<close>

text \<open>Indexing a map of strings: the zero value \<open>""\<close> for a missing key.\<close>

definition index :: "(string \<rightharpoonup> string) \<Rightarrow> string \<Rightarrow> string" where
  "index m k = (case m k of None \<Rightarrow> [] | Some v \<Rightarrow> v)"

text \<open>Reading a map that may be \<open>nil\<close>: a \<open>nil\<close> map has no key.\<close>

definition entries :: "(string \<rightharpoonup> string) option \<Rightarrow> (string \<rightharpoonup> string)" where
  "entries m = (case m of None \<Rightarrow> Map.empty | Some f \<Rightarrow> f)"

text \<open>\<open>strings.HasPrefix\<close>, \<open>strings.TrimPrefix\<close>, \<open>strings.Join\<close>.\<close>

definition HasPrefix :: "string \<Rightarrow> string \<Rightarrow> bool" where
  "HasPrefix s pre = (length pre \<le> length s \<and> take (length pre) s = pre)"

definition TrimPrefix :: "string \<Rightarrow> string \<Rightarrow> string" where
  "TrimPrefix s pre = (if HasPrefix s pre then drop (length pre) s else s)"

fun Join :: "string list \<Rightarrow> string \<Rightarrow> string" where
  "Join [] sep = []"
| "Join [x] sep = x"
| "Join (x # y # ys) sep = x @ sep @ Join (y # ys) sep"

text \<open>
  \<open>strings.FieldsFunc(s, f)\<close>: the maximal runs of characters that do not satisfy \<open>f\<close>,
  in order; no field is empty. \<open>cur\<close> is the field being read.
\<close>

fun fieldsFrom :: "(char \<Rightarrow> bool) \<Rightarrow> string \<Rightarrow> string \<Rightarrow> string list" where
  "fieldsFrom f cur [] = (if cur = [] then [] else [cur])"
| "fieldsFrom f cur (c # cs) =
     (if f c then (if cur = [] then fieldsFrom f [] cs else cur # fieldsFrom f [] cs)
      else fieldsFrom f (cur @ [c]) cs)"

definition FieldsFunc :: "string \<Rightarrow> (char \<Rightarrow> bool) \<Rightarrow> string list" where
  "FieldsFunc s f = fieldsFrom f [] s"

definition isSlash :: "char \<Rightarrow> bool" where
  "isSlash c = (c = CHR ''/'')"

subsection \<open>Go's path/filepath on Unix\<close>

text \<open>
  \<open>filepath.Clean\<close>: \<open>cleanElems rooted out es\<close> reads the path's elements \<open>es\<close> with
  the elements written so far in \<open>out\<close>. A \<open>.\<close> is dropped; a \<open>..\<close> removes the last
  real element, is kept in front of a relative path, and is dropped at the root.
\<close>

fun cleanElems :: "bool \<Rightarrow> string list \<Rightarrow> string list \<Rightarrow> string list" where
  "cleanElems rooted out [] = out"
| "cleanElems rooted out (e # es) =
     (if e = ''.'' then cleanElems rooted out es
      else if e = ''..'' then
        (if out \<noteq> [] \<and> last out \<noteq> ''..'' then cleanElems rooted (butlast out) es
         else if \<not> rooted then cleanElems rooted (out @ [''..'']) es
         else cleanElems rooted out es)
      else cleanElems rooted (out @ [e]) es)"

definition Clean :: "string \<Rightarrow> string" where
  "Clean path =
     (if path = [] then ''.''
      else
        let rooted = isSlash (hd path);
            out = cleanElems rooted [] (FieldsFunc path isSlash);
            s = (if rooted then ''/'' else []) @ Join out ''/''
        in if s = [] then ''.'' else s)"

text \<open>\<open>filepath.Join\<close>: the elements from the first non-empty one, joined and cleaned.\<close>

definition filepath_Join :: "string list \<Rightarrow> string" where
  "filepath_Join elem =
     (case dropWhile (\<lambda>e. e = []) elem of
        [] \<Rightarrow> []
      | es \<Rightarrow> Clean (Join es ''/''))"

text \<open>\<open>filepath.Base\<close>: the last element of the path, trailing slashes removed first.\<close>

definition Base :: "string \<Rightarrow> string" where
  "Base path =
     (if path = [] then ''.''
      else
        let stripped = rev (dropWhile isSlash (rev path));
            elem = rev (takeWhile (\<lambda>c. \<not> isSlash c) (rev stripped))
        in if elem = [] then ''/'' else elem)"

subsection \<open>Filter (main.go, lines 147-192)\<close>

definition validateOrgRepo :: "options \<Rightarrow> string \<Rightarrow> string \<Rightarrow> bool" where
  "validateOrgRepo opt org repo =
     (let hasOrg = (orgMap opt org \<noteq> None)
      in if \<not> hasOrg \<or> repo \<in> repoBlacklist opt
            \<or> (repoWhitelist opt \<noteq> {} \<and> repo \<notin> repoWhitelist opt)
         then False else True)"

text \<open>The inner loop of \<open>isMatchBranch\<close> (lines 174-178): one branch against every pattern.\<close>

fun matchPatterns :: "extern \<Rightarrow> string \<Rightarrow> string list \<Rightarrow> panic + bool" where
  "matchPatterns x branch [] = Inr False"
| "matchPatterns x branch (pattern # patterns) =
     (case regexp_Compile x pattern of
        None \<Rightarrow> Inl RegexpCompileError
      | Some matchString \<Rightarrow>
          if matchString branch then Inr True else matchPatterns x branch patterns)"

text \<open>The outer loop of \<open>isMatchBranch\<close> (lines 173-179): \<open>return true\<close> leaves both loops.\<close>

fun matchBranches :: "extern \<Rightarrow> string list \<Rightarrow> string list \<Rightarrow> panic + bool" where
  "matchBranches x [] patterns = Inr False"
| "matchBranches x (branch # bs) patterns =
     (case matchPatterns x branch patterns of
        Inl e \<Rightarrow> Inl e
      | Inr found \<Rightarrow> if found then Inr True else matchBranches x bs patterns)"

definition isMatchBranch :: "extern \<Rightarrow> options \<Rightarrow> string list \<Rightarrow> panic + bool" where
  "isMatchBranch x opt patterns =
     (if length (branches opt) = 0 then Inr True
      else matchBranches x (branches opt) patterns)"

text \<open>\<open>validateJob\<close>: Go's \<open>||\<close> evaluates left to right and stops at the first true operand.\<close>

definition validateJob :: "extern \<Rightarrow> options \<Rightarrow> string \<Rightarrow> string list \<Rightarrow> string \<Rightarrow> panic + bool" where
  "validateJob x opt name patterns jType =
     (if name \<in> jobBlacklist opt \<or> (jobWhitelist opt \<noteq> {} \<and> name \<notin> jobWhitelist opt)
      then Inr False
      else andThen (isMatchBranch x opt patterns) (\<lambda>matched.
        if \<not> matched \<or> jType \<notin> jobType opt then Inr False else Inr True))"

fun allRefsFrom :: "nat \<Rightarrow> Refs list \<Rightarrow> (Refs \<Rightarrow> nat \<Rightarrow> bool) \<Rightarrow> bool" where
  "allRefsFrom idx [] predicate = True"
| "allRefsFrom idx (item # array) predicate =
     (if \<not> predicate item idx then False else allRefsFrom (Suc idx) array predicate)"

definition allRefs :: "Refs list \<Rightarrow> (Refs \<Rightarrow> nat \<Rightarrow> bool) \<Rightarrow> bool" where
  "allRefs array predicate = allRefsFrom 0 array predicate"

subsection \<open>OrgRemapper (main.go, lines 194-205 and 435-448)\<close>

definition convertOrgRepoStr :: "extern \<Rightarrow> options \<Rightarrow> string \<Rightarrow> string" where
  "convertOrgRepoStr x opt s =
     (case SplitOrgRepo x s of (org, repo) \<Rightarrow>
        let valid = validateOrgRepo opt org repo
        in if \<not> valid then [] else Join [index (orgMap opt) org, repo] ''/'')"

text \<open>The body of the loop of \<open>updateExtraRefs\<close>, on one element of the slice.\<close>

definition updateExtraRef :: "options \<Rightarrow> Refs \<Rightarrow> Refs" where
  "updateExtraRef opt ref =
     (let org = Refs_Org ref; repo = Refs_Repo ref
      in if extraRefs opt \<or> validateOrgRepo opt org repo then
           let org' = index (orgMap opt) org;
               ref' = ref\<lparr>Refs_Org := org'\<rparr>
           in if sshClone opt
              then ref'\<lparr>Refs_CloneURI := ''git@'' @ gitHost @ '':'' @ org' @ ''/'' @ repo @ ''.git''\<rparr>
              else ref'
         else ref)"

definition updateExtraRefs :: "options \<Rightarrow> Refs list \<Rightarrow> Refs list" where
  "updateExtraRefs opt refs = map (updateExtraRef opt) refs"

subsection \<open>PresetResolver (main.go, lines 226-288)\<close>

text \<open>
  Lines 237-244, for one preset variable \<open>penv\<close> (\<open>env\<close> in the source) and one
  container's variables: the first variable of that name gets the preset's \<open>Value\<close> (its other fields stay);
  with no such variable, \<open>penv\<close> is appended.
\<close>

fun mergeEnv :: "EnvVar \<Rightarrow> EnvVar list \<Rightarrow> EnvVar list" where
  "mergeEnv penv [] = [penv]"
| "mergeEnv penv (e # es) =
     (if EnvVar_Name e = EnvVar_Name penv
      then e\<lparr>EnvVar_Value := EnvVar_Value penv\<rparr> # es
      else e # mergeEnv penv es)"

text \<open>Lines 251-259, for one preset volume: the first volume of that name is replaced.\<close>

fun mergeVolume :: "Volume \<Rightarrow> Volume list \<Rightarrow> Volume list" where
  "mergeVolume vol [] = [vol]"
| "mergeVolume vol (v # vs) =
     (if Volume_Name v = Volume_Name vol then vol # vs else v # mergeVolume vol vs)"

text \<open>Lines 265-272, for one preset mount and one container's mounts.\<close>

fun mergeVolumeMount :: "VolumeMount \<Rightarrow> VolumeMount list \<Rightarrow> VolumeMount list" where
  "mergeVolumeMount volm [] = [volm]"
| "mergeVolumeMount volm (m # ms) =
     (if VolumeMount_Name m = VolumeMount_Name volm then volm # ms
      else m # mergeVolumeMount volm ms)"

text \<open>
  \<open>mergePreset\<close>. The label loop returns at the first preset label that the job's
  labels lack or give another value: the preset goes on exactly when its labels are a
  sub-map of \<open>labels\<close>. The three loops that follow read \<open>job.Spec\<close> in their first
  round, which panics when \<open>job.Spec\<close> is \<open>nil\<close>.
\<close>

definition mergePreset ::
  "(string \<rightharpoonup> string) option \<Rightarrow> 'a JobBase_scheme \<Rightarrow> Preset \<Rightarrow> panic + 'a JobBase_scheme" where
  "mergePreset lbls job preset =
     (if \<not> (Preset_Labels preset \<subseteq>\<^sub>m entries lbls) then Inr job
      else case Spec job of
        None \<Rightarrow>
          if Preset_Env preset = [] \<and> Preset_Volumes preset = []
             \<and> Preset_VolumeMounts preset = []
          then Inr job else Inl NilPointerDereference
      | Some spec \<Rightarrow>
          let containers1 =
                fold (\<lambda>penv cs. map (\<lambda>c. c\<lparr>Container_Env := mergeEnv penv (Container_Env c)\<rparr>) cs)
                  (Preset_Env preset) (PodSpec_Containers spec);
              volumes1 = fold mergeVolume (Preset_Volumes preset) (PodSpec_Volumes spec);
              containers2 =
                fold (\<lambda>volm cs. map (\<lambda>c. c\<lparr>Container_VolumeMounts :=
                                          mergeVolumeMount volm (Container_VolumeMounts c)\<rparr>) cs)
                  (Preset_VolumeMounts preset) containers1
          in Inr (job\<lparr>Spec := Some (spec\<lparr>PodSpec_Volumes := volumes1,
                                         PodSpec_Containers := containers2\<rparr>)\<rparr>))"

text \<open>The loop of \<open>resolvePresets\<close> (lines 284-286).\<close>

fun mergePresets ::
  "(string \<rightharpoonup> string) option \<Rightarrow> 'a JobBase_scheme \<Rightarrow> Preset list \<Rightarrow> panic + 'a JobBase_scheme" where
  "mergePresets lbls job [] = Inr job"
| "mergePresets lbls job (preset # ps) =
     andThen (mergePreset lbls job preset) (\<lambda>job'. mergePresets lbls job' ps)"

definition resolvePresets ::
  "options \<Rightarrow> (string \<rightharpoonup> string) option \<Rightarrow> 'a JobBase_scheme \<Rightarrow> Preset list
     \<Rightarrow> panic + 'a JobBase_scheme" where
  "resolvePresets opt lbls job ps =
     (if \<not> resolve opt then Inr job
      else if Spec job \<noteq> None then mergePresets lbls job ps
      else Inr job)"

subsection \<open>FieldUpdater (main.go, lines 290-433)\<close>

text \<open>
  \<open>updateJobName\<close>. \<open>maxNameLen\<close> is a Go \<open>int\<close> and is negative when the suffix is
  longer than 63 bytes; the length of the name then exceeds it, and the slice
  \<open>job.Name[:maxNameLen]\<close> panics.
\<close>

definition updateJobName :: "options \<Rightarrow> 'a JobBase_scheme \<Rightarrow> panic + 'a JobBase_scheme" where
  "updateJobName opt job =
     (let suffix = (if modifier opt \<noteq> [] then jobnameSeparator @ modifier opt else []);
          maxNameLen = maxLabelLen - int (length suffix)
      in if int (length (Name job)) > maxNameLen then
           if maxNameLen < 0 then Inl SliceBoundsOutOfRange
           else Inr (job\<lparr>Name := take (nat maxNameLen) (Name job) @ suffix\<rparr>)
         else Inr (job\<lparr>Name := Name job @ suffix\<rparr>))"

definition updateGCSConfiguration :: "options \<Rightarrow> DecorationConfig \<Rightarrow> DecorationConfig" where
  "updateGCSConfiguration opt job =
     (if bucket opt = [] then job
      else case DecorationConfig_GCSConfiguration job of
        None \<Rightarrow> job\<lparr>DecorationConfig_GCSConfiguration :=
                   Some \<lparr>GCSConfiguration_Bucket = bucket opt, GCSConfiguration_PathPrefix = []\<rparr>\<rparr>
      | Some gcs \<Rightarrow> job\<lparr>DecorationConfig_GCSConfiguration :=
                   Some (gcs\<lparr>GCSConfiguration_Bucket := bucket opt\<rparr>)\<rparr>)"

text \<open>A \<open>nil\<close> slice is the empty list: both branches of lines 342-346 are kept.\<close>

definition updateSSHKeySecrets :: "options \<Rightarrow> DecorationConfig \<Rightarrow> DecorationConfig" where
  "updateSSHKeySecrets opt job =
     (if sshKeySecret opt = [] then job
      else if DecorationConfig_SSHKeySecrets job = []
        then job\<lparr>DecorationConfig_SSHKeySecrets := [sshKeySecret opt]\<rparr>
        else job\<lparr>DecorationConfig_SSHKeySecrets :=
                   DecorationConfig_SSHKeySecrets job @ [sshKeySecret opt]\<rparr>)"

definition updateUtilityConfig :: "options \<Rightarrow> 'a UtilityConfig_scheme \<Rightarrow> 'a UtilityConfig_scheme" where
  "updateUtilityConfig opt job =
     (if bucket opt = [] \<and> sshKeySecret opt = [] then job
      else
        let dc = (case DecorationConfig job of
                    None \<Rightarrow> \<lparr>DecorationConfig_GCSConfiguration = None,
                             DecorationConfig_GCSCredentialsSecret = [],
                             DecorationConfig_SSHKeySecrets = []\<rparr>
                  | Some d \<Rightarrow> d)
        in job\<lparr>DecorationConfig := Some (updateSSHKeySecrets opt (updateGCSConfiguration opt dc))\<rparr>)"

definition updateReporterConfig :: "options \<Rightarrow> 'a JobBase_scheme \<Rightarrow> 'a JobBase_scheme" where
  "updateReporterConfig opt job =
     (if channel opt = [] then job
      else
        let rc = (case ReporterConfig job of
                    None \<Rightarrow> \<lparr>ReporterConfig_Slack = None\<rparr>
                  | Some r \<Rightarrow> r)
        in job\<lparr>ReporterConfig := Some (rc\<lparr>ReporterConfig_Slack :=
                  Some \<lparr>SlackReporterConfig_Channel = channel opt,
                        SlackReporterConfig_ReportTemplate = []\<rparr>\<rparr>)\<rparr>)"

text \<open>Writing every entry of \<open>o.labels\<close> into the job's map is the map overlay \<open>++\<close>.\<close>

definition updateLabels :: "options \<Rightarrow> 'a JobBase_scheme \<Rightarrow> 'a JobBase_scheme" where
  "updateLabels opt job =
     (if dom (labels opt) = {} then job
      else
        let m = (case Labels job of None \<Rightarrow> Map.empty | Some l \<Rightarrow> l)
        in job\<lparr>Labels := Some (m ++ labels opt)\<rparr>)"

text \<open>
  \<open>updateNodeSelector\<close>. Past the guard of line 379 every path reads or writes
  \<open>job.Spec.NodeSelector\<close>, which panics when \<open>job.Spec\<close> is \<open>nil\<close>.
\<close>

definition updateNodeSelector :: "options \<Rightarrow> 'a JobBase_scheme \<Rightarrow> panic + 'a JobBase_scheme" where
  "updateNodeSelector opt job =
     (if dom (selector opt) = {} then Inr job
      else case Spec job of
        None \<Rightarrow> Inl NilPointerDereference
      | Some spec \<Rightarrow>
          let m = (if overrideSelector opt \<or> PodSpec_NodeSelector spec = None then Map.empty
                   else entries (PodSpec_NodeSelector spec))
          in Inr (job\<lparr>Spec := Some (spec\<lparr>PodSpec_NodeSelector := Some (m ++ selector opt)\<rparr>)\<rparr>))"

text \<open>
  \<open>updateEnvs\<close>: the rule of \<open>mergeEnv\<close> with a variable made of the key and its value
  (line 411), for every sorted key and every container.
\<close>

definition updateEnvs :: "extern \<Rightarrow> options \<Rightarrow> 'a JobBase_scheme \<Rightarrow> panic + 'a JobBase_scheme" where
  "updateEnvs x opt job =
     (if dom (env opt) = {} then Inr job
      else
        let envKs = SortedKeys x (env opt)
        in if envKs = [] then Inr job
           else case Spec job of
             None \<Rightarrow> Inl NilPointerDereference
           | Some spec \<Rightarrow>
               Inr (job\<lparr>Spec := Some (spec\<lparr>PodSpec_Containers :=
                 fold (\<lambda>envK cs. map (\<lambda>c. c\<lparr>Container_Env :=
                         mergeEnv \<lparr>EnvVar_Name = envK, EnvVar_Value = index (env opt) envK,
                                   EnvVar_ValueFrom = None\<rparr> (Container_Env c)\<rparr>) cs)
                   envKs (PodSpec_Containers spec)\<rparr>)\<rparr>))"

definition updateJobBase ::
  "extern \<Rightarrow> options \<Rightarrow> 'a JobBase_scheme \<Rightarrow> string \<Rightarrow> panic + 'a JobBase_scheme" where
  "updateJobBase x opt job orgrepo =
     (let job1 = job\<lparr>Annotations := None\<rparr>;
          job2 = (if sshClone opt \<and> orgrepo \<noteq> []
                  then job1\<lparr>CloneURI := ''git@'' @ gitHost @ '':'' @ orgrepo @ ''.git''\<rparr>
                  else job1);
          job3 = (if cluster opt \<noteq> [] \<and> cluster opt \<noteq> defaultCluster
                  then job2\<lparr>Cluster := cluster opt\<rparr> else job2)
      in andThen (updateJobName opt job3) (\<lambda>job4.
         andThen (updateNodeSelector opt (updateLabels opt (updateReporterConfig opt job4)))
           (\<lambda>job5. updateEnvs x opt job5)))"

subsection \<open>PathRouter (main.go, lines 450-489)\<close>

text \<open>The byte \<open>\\\<close>, for the pattern \<open>^org\\b\<close> that \<open>getOutPath\<close> builds.\<close>

definition backslash :: char where
  "backslash = char_of (92 :: nat)"

definition orgPattern :: "extern \<Rightarrow> string \<Rightarrow> string" where
  "orgPattern x org = ''^'' @ RemoveHost x org @ [backslash, CHR ''b'']"

definition getOutPath :: "extern \<Rightarrow> options \<Rightarrow> string \<Rightarrow> string \<Rightarrow> string" where
  "getOutPath x opt p inp =
     (let segments = FieldsFunc (TrimPrefix p inp) isSlash;
          n = length segments
      in if HasExtension x (output opt) yamlExt then output opt
         else if n \<ge> 3 then
           (let org = segments ! (n - 3); repo = segments ! (n - 2); file = segments ! (n - 1)
            in case orgMap opt org of
                 Some newOrg \<Rightarrow>
                   filepath_Join [output opt, GetTopLevelOrg x newOrg, repo,
                     RenameFile x (orgPattern x org) file (RemoveHost x newOrg)]
               | None \<Rightarrow> [])
         else if n = 2 then
           (let org = segments ! (n - 2); file = segments ! (n - 1)
            in case orgMap opt org of
                 Some newOrg \<Rightarrow>
                   filepath_Join [output opt, GetTopLevelOrg x newOrg,
                     RenameFile x (orgPattern x org) file (RemoveHost x newOrg)]
               | None \<Rightarrow> [])
         else if n = 1 then
           (let file = segments ! (n - 1)
            in if \<not> HasPrefix file (modifier opt)
               then filepath_Join [output opt, modifier opt @ filenameSeparator @ file]
               else [])
         else if n = 0 then
           (let file = Base inp
            in if \<not> HasPrefix file (modifier opt)
               then filepath_Join [output opt, modifier opt @ filenameSeparator @ file]
               else [])
         else [])"

subsection \<open>The periodic jobs of one input file (main.go, lines 689-711)\<close>

text \<open>
  The body of the loop over \<open>jobs.Periodics\<close>: \<open>None\<close> when a \<open>continue\<close> skips the
  job, and otherwise the job that is appended to \<open>periodic\<close>. \<open>filePresets\<close> are those of
  the preset files and \<open>jobPresets\<close> those of the input file.
\<close>

definition convertPeriodic ::
  "extern \<Rightarrow> options \<Rightarrow> Preset list \<Rightarrow> Preset list \<Rightarrow> Periodic \<Rightarrow> panic + Periodic option" where
  "convertPeriodic x opt filePresets jobPresets job =
     andThen (validateJob x opt (Name job) [] ''periodic'') (\<lambda>valid.
       if \<not> valid then Inr None
       else if length (ExtraRefs job) = 0 then Inr None
       else if allRefs (ExtraRefs job)
                 (\<lambda>val idx. \<not> validateOrgRepo opt (Refs_Org val) (Refs_Repo val))
         then Inr None
       else
         let job1 = job\<lparr>ExtraRefs := updateExtraRefs opt (ExtraRefs job)\<rparr>
         in andThen (updateJobBase x opt job1 []) (\<lambda>job2.
              let job3 = updateUtilityConfig opt job2
              in andThen (resolvePresets opt (Labels job3) job3 (filePresets @ jobPresets))
                   (\<lambda>job4. Inr (Some job4))))"

text \<open>The loop itself; \<open>periodic\<close> is the slice being built.\<close>

fun convertPeriodics ::
  "extern \<Rightarrow> options \<Rightarrow> Preset list \<Rightarrow> Preset list \<Rightarrow> Periodic list \<Rightarrow> Periodic list
     \<Rightarrow> panic + Periodic list" where
  "convertPeriodics x opt filePresets jobPresets periodic [] = Inr periodic"
| "convertPeriodics x opt filePresets jobPresets periodic (job # jobs) =
     andThen (convertPeriodic x opt filePresets jobPresets job) (\<lambda>r.
       case r of
         None \<Rightarrow> convertPeriodics x opt filePresets jobPresets periodic jobs
       | Some job' \<Rightarrow> convertPeriodics x opt filePresets jobPresets (periodic @ [job']) jobs)"

subsection \<open>Stand-ins for the parameters, and sample data\<close>

text \<open>\<open>strings.HasSuffix\<close> and \<open>strings.Contains\<close>.\<close>

definition HasSuffix :: "string \<Rightarrow> string \<Rightarrow> bool" where
  "HasSuffix s suf = (length suf \<le> length s \<and> drop (length s - length suf) s = suf)"

fun Contains :: "string \<Rightarrow> string \<Rightarrow> bool" where
  "Contains [] substr = (substr = [])"
| "Contains (c # cs) substr = (HasPrefix (c # cs) substr \<or> Contains cs substr)"

text \<open>
  Go's \<open>regexp\<close> on the patterns the examples below use. A pattern made of letters,
  digits, \<open>-\<close>, \<open>_\<close> and \<open>/\<close> only is a literal, and \<open>MatchString\<close> is true of every
  string that contains it (the match is not anchored). The pattern \<open>(\<close> does not
  compile (missing closing parenthesis), and \<open>MustCompile\<close> panics. This table is
  exact for these patterns only and says "does not compile" of every other one; the
  examples use it at literals and at \<open>(\<close>.
\<close>

definition isLiteral :: "string \<Rightarrow> bool" where
  "isLiteral p =
     (set p \<subseteq> set ''abcdefghijklmnopqrstuvwxyzABCDEFGHIJKLMNOPQRSTUVWXYZ0123456789-_/'')"

definition literalRegexp :: "string \<Rightarrow> (string \<Rightarrow> bool) option" where
  "literalRegexp p = (if isLiteral p then Some (\<lambda>s. Contains s p) else None)"

text \<open>
  The functions of package \<open>util\<close> are missing from the sources. The six definitions
  that follow are modelled from the spec's words and instantiate the parameters in the
  examples; no general theorem depends on them.
\<close>

text \<open>
  Modelled from the spec: \<open>util.HasExtension\<close>, which is missing. A file "matches a
  YAML-extension pattern (.yml or .yaml)"; main.go passes no other pattern than
  \<open>yamlExt\<close>.
\<close>

definition spec_HasExtension :: "string \<Rightarrow> string \<Rightarrow> bool" where
  "spec_HasExtension path extension = (HasSuffix path ''.yml'' \<or> HasSuffix path ''.yaml'')"

text \<open>
  Modelled from the spec: \<open>util.SplitOrgRepo\<close>, which is missing. Organization and
  repository are "combined as org/repo", the organization being "possibly
  slash-qualified": the split is at the last slash.
\<close>

definition spec_SplitOrgRepo :: "string \<Rightarrow> string \<times> string" where
  "spec_SplitOrgRepo s =
     (let repo = rev (takeWhile (\<lambda>c. \<not> isSlash c) (rev s))
      in (take (length s - length repo - 1) s, repo))"

text \<open>
  Modelled from the spec: \<open>util.GetTopLevelOrg\<close>, which is missing. It "extracts the
  first path component of a (possibly slash-qualified) organization identifier".
\<close>

definition spec_GetTopLevelOrg :: "string \<Rightarrow> string" where
  "spec_GetTopLevelOrg org = takeWhile (\<lambda>c. \<not> isSlash c) org"

text \<open>
  Modelled from the spec: \<open>util.RemoveHost\<close>, which is missing. It gives the
  "host-stripped" organization name; the host is \<open>gitHost\<close>.
\<close>

definition spec_RemoveHost :: "string \<Rightarrow> string" where
  "spec_RemoveHost org = TrimPrefix org (gitHost @ ''/'')"

text \<open>
  Modelled from the spec: \<open>util.RenameFile\<close>, which is missing. It "replaces a leading
  occurrence of the original (host-stripped) org name in the filename with the mapped
  (host-stripped) org name, anchored at the start of the filename"; the org name is
  read back from the pattern \<open>^org\\b\<close> that \<open>getOutPath\<close> passes.
\<close>

definition spec_RenameFile :: "string \<Rightarrow> string \<Rightarrow> string \<Rightarrow> string" where
  "spec_RenameFile pat src repl =
     (if HasPrefix pat ''^'' \<and> HasSuffix pat [backslash, CHR ''b''] then
        let org = take (length pat - 3) (drop 1 pat)
        in if HasPrefix src org then repl @ drop (length org) src else src
      else src)"

text \<open>
  Modelled from the spec: \<open>util.SortedKeys\<close>, which is missing. The configured
  variables are applied "in a stable (sorted) key order".
\<close>

definition spec_SortedKeys :: "(string \<rightharpoonup> string) \<Rightarrow> string list" where
  "spec_SortedKeys m = sorted_list_of_set (dom m)"

definition sampleExtern :: extern where
  "sampleExtern =
     \<lparr> regexp_Compile = literalRegexp, HasExtension = spec_HasExtension,
       SplitOrgRepo = spec_SplitOrgRepo, GetTopLevelOrg = spec_GetTopLevelOrg,
       RemoveHost = spec_RemoveHost, RenameFile = spec_RenameFile,
       SortedKeys = spec_SortedKeys \<rparr>"

text \<open>The zero values of the Go structures, from which the examples are built.\<close>

definition zeroPodSpec :: PodSpec where
  "zeroPodSpec = \<lparr>PodSpec_Volumes = [], PodSpec_Containers = [], PodSpec_NodeSelector = None\<rparr>"

definition zeroContainer :: Container where
  "zeroContainer =
     \<lparr>Container_Name = [], Container_Image = [], Container_Env = [],
      Container_VolumeMounts = []\<rparr>"

definition zeroJobBase :: JobBase where
  "zeroJobBase =
     \<lparr>PathAlias = [], CloneURI = [], ExtraRefs = [], DecorationConfig = None,
      Name = [], Labels = None, Annotations = None, Agent = [], Cluster = [],
      Spec = None, ReporterConfig = None\<rparr>"

definition zeroPeriodic :: Periodic where
  "zeroPeriodic =
     \<lparr>PathAlias = [], CloneURI = [], ExtraRefs = [], DecorationConfig = None,
      Name = [], Labels = None, Annotations = None, Agent = [], Cluster = [],
      Spec = None, ReporterConfig = None, Interval = [], Cron = []\<rparr>"

definition zeroRefs :: Refs where
  "zeroRefs =
     \<lparr>Refs_Org = [], Refs_Repo = [], Refs_BaseRef = [], Refs_PathAlias = [],
      Refs_CloneURI = []\<rparr>"

definition zeroPreset :: Preset where
  "zeroPreset =
     \<lparr>Preset_Labels = Map.empty, Preset_Env = [], Preset_Volumes = [],
      Preset_VolumeMounts = []\<rparr>"

definition envVar :: "string \<Rightarrow> string \<Rightarrow> EnvVar" where
  "envVar n v = \<lparr>EnvVar_Name = n, EnvVar_Value = v, EnvVar_ValueFrom = None\<rparr>"

text \<open>Sample options and a sample periodic job for the examples.\<close>

definition sampleOptions :: options where
  "sampleOptions = defaultOptions\<lparr>orgMap := [''org-a'' \<mapsto> ''org-b'']\<rparr>"

definition samplePeriodic :: Periodic where
  "samplePeriodic =
     zeroPeriodic\<lparr>Name := ''nightly'',
       ExtraRefs := [zeroRefs\<lparr>Refs_Org := ''org-a'', Refs_Repo := ''repo-x''\<rparr>],
       Spec := Some zeroPodSpec\<rparr>"

text \<open>A job whose node selector is \<open>{disk: ssd}\<close>.\<close>

definition ssdJob :: JobBase where
  "ssdJob = zeroJobBase\<lparr>Spec := Some (zeroPodSpec\<lparr>PodSpec_NodeSelector := Some [''disk'' \<mapsto> ''ssd'']\<rparr>)\<rparr>"

text \<open>A preset gated on \<open>preset-foo: true\<close> that sets \<open>FOO=bar\<close>, and a job with one container.\<close>

definition fooPreset :: Preset where
  "fooPreset = zeroPreset\<lparr>Preset_Labels := [''preset-foo'' \<mapsto> ''true''],
                            Preset_Env := [envVar ''FOO'' ''bar'']\<rparr>"

definition containerJob :: JobBase where
  "containerJob = zeroJobBase\<lparr>Spec := Some (zeroPodSpec\<lparr>PodSpec_Containers := [zeroContainer]\<rparr>)\<rparr>"

text \<open>
  For the proofs: the shape that \<open>mergeEnv\<close>, \<open>mergeVolume\<close> and \<open>mergeVolumeMount\<close>
  share (\<open>put old new\<close> is what is written in place of the first element with the new
  element's key), the same without the append, and what the proofs need of \<open>put\<close>.
\<close>

fun upsertBy :: "('a \<Rightarrow> 'k) \<Rightarrow> ('a \<Rightarrow> 'a \<Rightarrow> 'a) \<Rightarrow> 'a \<Rightarrow> 'a list \<Rightarrow> 'a list" where
  "upsertBy key put new [] = [new]"
| "upsertBy key put new (x # xs) =
     (if key x = key new then put x new # xs else x # upsertBy key put new xs)"

fun setFirst :: "('a \<Rightarrow> 'k) \<Rightarrow> ('a \<Rightarrow> 'a \<Rightarrow> 'a) \<Rightarrow> 'a \<Rightarrow> 'a list \<Rightarrow> 'a list" where
  "setFirst key put new [] = []"
| "setFirst key put new (x # xs) =
     (if key x = key new then put x new # xs else x # setFirst key put new xs)"

definition wellPut :: "('a \<Rightarrow> 'k) \<Rightarrow> ('a \<Rightarrow> 'a \<Rightarrow> 'a) \<Rightarrow> bool" where
  "wellPut key put =
     ((\<forall>x n. key x = key n \<longrightarrow> key (put x n) = key x)
      \<and> (\<forall>x a b. put (put x a) b = put x b)
      \<and> (\<forall>n. put n n = n))"

text \<open>The two ways the program writes over an element: its value only, or all of it.\<close>

definition putValue :: "EnvVar \<Rightarrow> EnvVar \<Rightarrow> EnvVar" where
  "putValue e penv = e\<lparr>EnvVar_Value := EnvVar_Value penv\<rparr>"

definition putWhole :: "'a \<Rightarrow> 'a \<Rightarrow> 'a" where
  "putWhole old new = new"

text \<open>The value a preset gives a variable name: that of its last variable of the name.\<close>

fun presetEnvValue :: "EnvVar list \<Rightarrow> string \<Rightarrow> string option" where
  "presetEnvValue [] n = None"
| "presetEnvValue (e # es) n =
     (case presetEnvValue es n of
        Some v \<Rightarrow> Some v
      | None \<Rightarrow> if EnvVar_Name e = n then Some (EnvVar_Value e) else None)"

text \<open>For the proofs: what \<open>mergePreset\<close> makes of a container and of a pod spec.\<close>

definition mergedContainer :: "Preset \<Rightarrow> Container \<Rightarrow> Container" where
  "mergedContainer preset c =
     c\<lparr>Container_Env := fold mergeEnv (Preset_Env preset) (Container_Env c),
       Container_VolumeMounts :=
         fold mergeVolumeMount (Preset_VolumeMounts preset) (Container_VolumeMounts c)\<rparr>"

definition mergedSpec :: "Preset \<Rightarrow> PodSpec \<Rightarrow> PodSpec" where
  "mergedSpec preset spec =
     spec\<lparr>PodSpec_Volumes := fold mergeVolume (Preset_Volumes preset) (PodSpec_Volumes spec),
          PodSpec_Containers := map (mergedContainer preset) (PodSpec_Containers spec)\<rparr>"

text \<open>A job whose container has two variables named \<open>A\<close>, and a preset that sets \<open>A=1\<close>.\<close>

definition dupJob :: JobBase where
  "dupJob = zeroJobBase\<lparr>Spec := Some (zeroPodSpec\<lparr>PodSpec_Containers :=
              [zeroContainer\<lparr>Container_Env := [envVar ''A'' ''0'', envVar ''A'' ''0'']\<rparr>]\<rparr>)\<rparr>"

definition aPreset :: Preset where
  "aPreset = zeroPreset\<lparr>Preset_Env := [envVar ''A'' ''1'']\<rparr>"

section \<open>Properties\<close>

subsection \<open>FieldUpdater: the job name\<close>

lemma updateJobName_ok:
  assumes "length (modifier opt) \<le> 62"
  shows "updateJobName opt job =
           Inr (job\<lparr>Name :=
                  take (63 - length (if modifier opt \<noteq> [] then ''_'' @ modifier opt else []))
                    (Name job)
                  @ (if modifier opt \<noteq> [] then ''_'' @ modifier opt else [])\<rparr>)"
  using assms
  by (auto simp: updateJobName_def Let_def maxLabelLen_def jobnameSeparator_def nat_diff_distrib')

text \<open>
  Claim C3, amended. For every job name and every modifier of at most 62 bytes (so
  that the suffix, separator plus modifier, has at most 63), \<open>updateJobName\<close> returns
  the job with the name cut to its first \<open>63 - length suffix\<close> bytes, followed by the
  suffix; only trailing bytes of the base name are dropped, and the new name never
  has more than 63 bytes. With the modifier \<open>private\<close> and a name of 70 bytes, the
  name is cut to 55 bytes and the new name has exactly 63.
\<close>

theorem updateJobName_bounded:
  assumes "length (modifier opt) \<le> 62"
  shows "\<exists>job' suffix.
           suffix = (if modifier opt \<noteq> [] then jobnameSeparator @ modifier opt else [])
           \<and> updateJobName opt job = Inr job'
           \<and> job' = job\<lparr>Name := take (63 - length suffix) (Name job) @ suffix\<rparr>
           \<and> length (Name job') \<le> 63
           \<and> (modifier opt = ''private'' \<and> length (Name job) = 70 \<longrightarrow>
                suffix = ''_private'' \<and> Name job' = take 55 (Name job) @ ''_private''
                \<and> length (take 55 (Name job)) = 55 \<and> length (Name job') = 63)"
  using assms updateJobName_ok [OF assms, of job]
  by (auto simp: jobnameSeparator_def)

theorem updateJobName_bounded_witness:
  "length (modifier defaultOptions) \<le> 62
   \<and> updateJobName defaultOptions (zeroJobBase\<lparr>Name := replicate 70 CHR ''a''\<rparr>)
       = Inr (zeroJobBase\<lparr>Name := replicate 55 CHR ''a'' @ ''_private''\<rparr>)"
proof -
  have h: "length (modifier defaultOptions) \<le> 62"
    by (simp add: defaultOptions_def defaultModifier_def)
  have m: "modifier defaultOptions = ''private''"
    by (simp add: defaultOptions_def defaultModifier_def)
  from updateJobName_bounded [OF h, of "zeroJobBase\<lparr>Name := replicate 70 CHR ''a''\<rparr>"]
  show ?thesis using h m by (auto simp: jobnameSeparator_def)
qed

text \<open>
  Claim C3 as stated fails for a long modifier: with a modifier of 63 bytes the suffix
  has 64, \<open>maxNameLen\<close> is \<open>-1\<close>, and the slice panics; no name is produced.
\<close>

theorem updateJobName_long_modifier_counterexample:
  "updateJobName (defaultOptions\<lparr>modifier := replicate 63 CHR ''m''\<rparr>)
     (zeroJobBase\<lparr>Name := ''job''\<rparr>) = Inl SliceBoundsOutOfRange"
  by (simp add: updateJobName_def Let_def maxLabelLen_def jobnameSeparator_def)

subsection \<open>Filter: the branch match\<close>

lemma matchPatterns_ok:
  assumes "\<forall>p\<in>set patterns. regexp_Compile x p \<noteq> None"
  shows "matchPatterns x b patterns =
           Inr (\<exists>p\<in>set patterns. \<exists>m. regexp_Compile x p = Some m \<and> m b)"
  using assms by (induction patterns) auto

lemma matchBranches_ok:
  assumes "\<forall>p\<in>set patterns. regexp_Compile x p \<noteq> None"
  shows "matchBranches x bs patterns =
           Inr (\<exists>b\<in>set bs. \<exists>p\<in>set patterns. \<exists>m. regexp_Compile x p = Some m \<and> m b)"
proof (induction bs)
  case Nil
  then show ?case by simp
next
  case (Cons b bs)
  have mp: "matchPatterns x b patterns =
              Inr (\<exists>p\<in>set patterns. \<exists>m. regexp_Compile x p = Some m \<and> m b)"
    using assms by (rule matchPatterns_ok)
  have ih: "matchBranches x bs patterns =
              Inr (\<exists>b\<in>set bs. \<exists>p\<in>set patterns. \<exists>m. regexp_Compile x p = Some m \<and> m b)"
    by (rule Cons.IH)
  show ?case
  proof (cases "\<exists>p\<in>set patterns. \<exists>m. regexp_Compile x p = Some m \<and> m b")
    case True
    then show ?thesis by (simp add: mp)
  next
    case False
    then show ?thesis by (simp add: mp ih) blast
  qed
qed

lemma isMatchBranch_empty_branches: "branches opt = [] \<Longrightarrow> isMatchBranch x opt patterns = Inr True"
  by (simp add: isMatchBranch_def)

lemma isMatchBranch_ok:
  assumes "\<forall>p\<in>set patterns. regexp_Compile x p \<noteq> None" "branches opt \<noteq> []"
  shows "isMatchBranch x opt patterns =
           Inr (\<exists>b\<in>set (branches opt). \<exists>p\<in>set patterns. \<exists>m. regexp_Compile x p = Some m \<and> m b)"
  using assms(2) matchBranches_ok [OF assms(1), of "branches opt"] by (simp add: isMatchBranch_def)

text \<open>
  Claim C1, amended. With an empty configured branch list \<open>isMatchBranch\<close> returns
  true, whatever the patterns. With a non-empty one, and job branch patterns that all
  compile as regular expressions, it returns true if and only if at least one
  configured branch is matched by at least one pattern (cross-product OR), the match
  being \<open>MatchString\<close> of the compiled pattern.
\<close>

theorem isMatchBranch_cross_product:
  "(branches opt = [] \<longrightarrow> isMatchBranch x opt patterns = Inr True)
   \<and> (branches opt \<noteq> [] \<and> (\<forall>p\<in>set patterns. regexp_Compile x p \<noteq> None) \<longrightarrow>
        isMatchBranch x opt patterns =
          Inr (\<exists>b\<in>set (branches opt). \<exists>p\<in>set patterns.
                 \<exists>matchString. regexp_Compile x p = Some matchString \<and> matchString b))"
  using isMatchBranch_empty_branches [of opt x patterns] isMatchBranch_ok [of patterns x opt]
  by blast

theorem isMatchBranch_cross_product_witness:
  "isMatchBranch sampleExtern (defaultOptions\<lparr>branches := [''main'', ''release-1'']\<rparr>) [''release'', ''dev''] = Inr True
   \<and> isMatchBranch sampleExtern (defaultOptions\<lparr>branches := [''main'']\<rparr>) [''release'', ''dev''] = Inr False
   \<and> isMatchBranch sampleExtern defaultOptions [''(''] = Inr True"
  using isMatchBranch_cross_product [of "defaultOptions\<lparr>branches := [''main'', ''release-1'']\<rparr>" sampleExtern "[''release'', ''dev'']"]
    isMatchBranch_cross_product [of "defaultOptions\<lparr>branches := [''main'']\<rparr>" sampleExtern "[''release'', ''dev'']"]
    isMatchBranch_cross_product [of "defaultOptions" sampleExtern "[''('']"]
  by (simp add: sampleExtern_def literalRegexp_def isLiteral_def defaultOptions_def HasPrefix_def)

text \<open>
  Claim C1 as stated fails for a pattern that does not compile: the branch \<open>main\<close>
  is matched by the pattern \<open>main\<close>, but the pattern \<open>(\<close> is compiled first and
  \<open>MustCompile\<close> panics, so \<open>isMatchBranch\<close> does not return true.
\<close>

theorem isMatchBranch_invalid_pattern_counterexample:
  "(case regexp_Compile sampleExtern ''main'' of Some matchString \<Rightarrow> matchString ''main'' | None \<Rightarrow> False)
   \<and> isMatchBranch sampleExtern (defaultOptions\<lparr>branches := [''main'']\<rparr>) [''('', ''main'']
       = Inl RegexpCompileError"
  by (simp add: sampleExtern_def literalRegexp_def isLiteral_def isMatchBranch_def HasPrefix_def)

subsection \<open>The periodic jobs: what the loop keeps\<close>

lemma matchBranches_no_patterns: "matchBranches x bs [] = Inr False"
  by (induction bs) simp_all

lemma isMatchBranch_no_patterns:
  "branches opt \<noteq> [] \<Longrightarrow> isMatchBranch x opt [] = Inr False"
  by (simp add: isMatchBranch_def matchBranches_no_patterns)

lemma isMatchBranch_no_patterns_total:
  "isMatchBranch x opt [] = Inr (branches opt = [])"
  by (simp add: isMatchBranch_def matchBranches_no_patterns)

lemma validateJob_no_patterns:
  "branches opt \<noteq> [] \<Longrightarrow> validateJob x opt name [] jType = Inr False"
  by (simp add: validateJob_def andThen_def isMatchBranch_no_patterns)

lemma convertPeriodic_branches:
  "branches opt \<noteq> [] \<Longrightarrow> convertPeriodic x opt filePresets jobPresets job = Inr None"
  by (simp add: convertPeriodic_def andThen_def validateJob_no_patterns)

lemma convertPeriodics_skip_all:
  assumes "\<forall>job\<in>set jobs. convertPeriodic x opt filePresets jobPresets job = Inr None"
  shows "convertPeriodics x opt filePresets jobPresets periodic jobs = Inr periodic"
  using assms by (induction jobs) (simp_all add: andThen_def)

text \<open>
  Claim C9. Whenever the configured branch list is non-empty, every periodic job is
  excluded: \<open>validateJob\<close> is called for a periodic job with an empty list of
  patterns, \<open>isMatchBranch\<close> over a non-empty branch list and no pattern is false, so
  the loop body skips the job, whatever its name, type and extra refs, and the loop
  over any list of periodic jobs appends nothing.
\<close>

theorem periodics_dropped_by_branch_filter:
  assumes "branches opt \<noteq> []"
  shows "isMatchBranch x opt [] = Inr False
         \<and> validateJob x opt (Name job) [] ''periodic'' = Inr False
         \<and> convertPeriodic x opt filePresets jobPresets job = Inr None
         \<and> convertPeriodics x opt filePresets jobPresets [] jobs = Inr []"
  using assms
  by (simp add: isMatchBranch_no_patterns validateJob_no_patterns convertPeriodic_branches
      convertPeriodics_skip_all)

lemma allRefsFrom_iff:
  "allRefsFrom idx array (\<lambda>val i. P val) = (\<forall>r\<in>set array. P r)"
  by (induction array arbitrary: idx) auto

lemma validateJob_no_patterns_returns:
  "\<exists>b. validateJob x opt name [] jType = Inr b"
  by (auto simp: validateJob_def andThen_def isMatchBranch_no_patterns_total)

lemma convertPeriodic_skips:
  assumes "ExtraRefs job = [] \<or> (\<forall>r\<in>set (ExtraRefs job). \<not> validateOrgRepo opt (Refs_Org r) (Refs_Repo r))"
  shows "convertPeriodic x opt filePresets jobPresets job = Inr None"
proof -
  obtain b where b: "validateJob x opt (Name job) [] ''periodic'' = Inr b"
    using validateJob_no_patterns_returns by blast
  show ?thesis using assms
    by (auto simp: convertPeriodic_def andThen_def b allRefs_def allRefsFrom_iff)
qed

lemma convertPeriodic_kept:
  assumes "convertPeriodic x opt filePresets jobPresets job = Inr (Some job')"
  shows "ExtraRefs job \<noteq> [] \<and> (\<exists>r\<in>set (ExtraRefs job). validateOrgRepo opt (Refs_Org r) (Refs_Repo r))"
proof (rule ccontr)
  assume "\<not> ?thesis"
  then have "ExtraRefs job = [] \<or> (\<forall>r\<in>set (ExtraRefs job). \<not> validateOrgRepo opt (Refs_Org r) (Refs_Repo r))"
    by blast
  from convertPeriodic_skips [OF this] assms show False by simp
qed

lemma validateOrgRepo_iff:
  "validateOrgRepo opt org repo =
     (orgMap opt org \<noteq> None \<and> repo \<notin> repoBlacklist opt
      \<and> (repoWhitelist opt = {} \<or> repo \<in> repoWhitelist opt))"
  by (auto simp: validateOrgRepo_def)

text \<open>
  Claim C10. A periodic job is appended (the loop body returns \<open>Some\<close>) only if its
  list of extra refs is non-empty and at least one extra ref has an org with an entry
  in the org mapping, a repo outside the repo deny set, and a repo that the allow set
  accepts (the allow set is empty or contains it). A periodic job with no extra refs,
  or whose extra refs all fail \<open>validateOrgRepo\<close>, is skipped without a panic, whatever
  the name, type and branch filters say; and a list of such jobs leaves the output
  slice as it was.
\<close>

theorem periodic_kept_only_with_valid_extra_ref:
  "(convertPeriodic x opt filePresets jobPresets job = Inr (Some job') \<longrightarrow>
      ExtraRefs job \<noteq> []
      \<and> (\<exists>r\<in>set (ExtraRefs job).
            orgMap opt (Refs_Org r) \<noteq> None \<and> Refs_Repo r \<notin> repoBlacklist opt
            \<and> (repoWhitelist opt = {} \<or> Refs_Repo r \<in> repoWhitelist opt)))
   \<and> (ExtraRefs job = []
        \<or> (\<forall>r\<in>set (ExtraRefs job). \<not> validateOrgRepo opt (Refs_Org r) (Refs_Repo r)) \<longrightarrow>
      convertPeriodic x opt filePresets jobPresets job = Inr None)
   \<and> ((\<forall>j\<in>set jobs. ExtraRefs j = []
          \<or> (\<forall>r\<in>set (ExtraRefs j). \<not> validateOrgRepo opt (Refs_Org r) (Refs_Repo r))) \<longrightarrow>
      convertPeriodics x opt filePresets jobPresets periodic jobs = Inr periodic)"
proof (intro conjI impI)
  assume "convertPeriodic x opt filePresets jobPresets job = Inr (Some job')"
  from convertPeriodic_kept [OF this]
  show "ExtraRefs job \<noteq> []" 
    and "\<exists>r\<in>set (ExtraRefs job).
            orgMap opt (Refs_Org r) \<noteq> None \<and> Refs_Repo r \<notin> repoBlacklist opt
            \<and> (repoWhitelist opt = {} \<or> Refs_Repo r \<in> repoWhitelist opt)"
    by (simp_all add: validateOrgRepo_iff)
next
  assume "ExtraRefs job = []
        \<or> (\<forall>r\<in>set (ExtraRefs job). \<not> validateOrgRepo opt (Refs_Org r) (Refs_Repo r))"
  then show "convertPeriodic x opt filePresets jobPresets job = Inr None"
    by (rule convertPeriodic_skips)
next
  assume "\<forall>j\<in>set jobs. ExtraRefs j = []
          \<or> (\<forall>r\<in>set (ExtraRefs j). \<not> validateOrgRepo opt (Refs_Org r) (Refs_Repo r))"
  then have "\<forall>job\<in>set jobs. convertPeriodic x opt filePresets jobPresets job = Inr None"
    using convertPeriodic_skips by blast
  then show "convertPeriodics x opt filePresets jobPresets periodic jobs = Inr periodic"
    by (rule convertPeriodics_skip_all)
qed

lemma samplePeriodic_kept:
  "convertPeriodic sampleExtern sampleOptions [] [] samplePeriodic =
     Inr (Some (samplePeriodic\<lparr>Name := ''nightly_private'',
       ExtraRefs := [zeroRefs\<lparr>Refs_Org := ''org-b'', Refs_Repo := ''repo-x''\<rparr>]\<rparr>))"
  by (simp add: convertPeriodic_def andThen_def validateJob_def isMatchBranch_def
      sampleOptions_def defaultOptions_def samplePeriodic_def zeroPeriodic_def zeroRefs_def
      allRefs_def validateOrgRepo_def updateExtraRefs_def updateExtraRef_def index_def
      updateJobBase_def updateJobName_def updateReporterConfig_def updateLabels_def
      updateNodeSelector_def updateEnvs_def updateUtilityConfig_def resolvePresets_def
      Let_def maxLabelLen_def jobnameSeparator_def defaultModifier_def)

theorem periodic_kept_only_with_valid_extra_ref_witness:
  "convertPeriodic sampleExtern sampleOptions [] [] samplePeriodic =
     Inr (Some (samplePeriodic\<lparr>Name := ''nightly_private'',
       ExtraRefs := [zeroRefs\<lparr>Refs_Org := ''org-b'', Refs_Repo := ''repo-x''\<rparr>]\<rparr>))
   \<and> ExtraRefs samplePeriodic \<noteq> []
   \<and> (\<exists>r\<in>set (ExtraRefs samplePeriodic).
            orgMap sampleOptions (Refs_Org r) \<noteq> None \<and> Refs_Repo r \<notin> repoBlacklist sampleOptions
            \<and> (repoWhitelist sampleOptions = {} \<or> Refs_Repo r \<in> repoWhitelist sampleOptions))
   \<and> convertPeriodic sampleExtern sampleOptions [] [] (samplePeriodic\<lparr>ExtraRefs := []\<rparr>) = Inr None
   \<and> convertPeriodics sampleExtern sampleOptions [] [] []
        [samplePeriodic\<lparr>ExtraRefs := []\<rparr>,
         samplePeriodic\<lparr>ExtraRefs := [zeroRefs\<lparr>Refs_Org := ''org-z'', Refs_Repo := ''repo-x''\<rparr>]\<rparr>]
       = Inr []"
proof -
  note t = periodic_kept_only_with_valid_extra_ref [of sampleExtern sampleOptions "[]" "[]"]
  have a: "ExtraRefs samplePeriodic \<noteq> []
   \<and> (\<exists>r\<in>set (ExtraRefs samplePeriodic).
            orgMap sampleOptions (Refs_Org r) \<noteq> None \<and> Refs_Repo r \<notin> repoBlacklist sampleOptions
            \<and> (repoWhitelist sampleOptions = {} \<or> Refs_Repo r \<in> repoWhitelist sampleOptions))"
    using t [of samplePeriodic _ "[]" "[]"] samplePeriodic_kept by blast
  have b: "convertPeriodic sampleExtern sampleOptions [] [] (samplePeriodic\<lparr>ExtraRefs := []\<rparr>) = Inr None"
    using t [of "samplePeriodic\<lparr>ExtraRefs := []\<rparr>" samplePeriodic "[]" "[]"] by simp
  have c: "convertPeriodics sampleExtern sampleOptions [] [] []
        [samplePeriodic\<lparr>ExtraRefs := []\<rparr>,
         samplePeriodic\<lparr>ExtraRefs := [zeroRefs\<lparr>Refs_Org := ''org-z'', Refs_Repo := ''repo-x''\<rparr>]\<rparr>]
       = Inr []"
    using t [of samplePeriodic samplePeriodic
        "[samplePeriodic\<lparr>ExtraRefs := []\<rparr>,
         samplePeriodic\<lparr>ExtraRefs := [zeroRefs\<lparr>Refs_Org := ''org-z'', Refs_Repo := ''repo-x''\<rparr>]\<rparr>]" "[]"]
    by (simp add: validateOrgRepo_def sampleOptions_def defaultOptions_def zeroRefs_def)
  show ?thesis using samplePeriodic_kept a b c by blast
qed

theorem periodics_dropped_by_branch_filter_witness:
  "branches (sampleOptions\<lparr>branches := [''main'']\<rparr>) \<noteq> []
   \<and> validateJob sampleExtern (sampleOptions\<lparr>branches := [''main'']\<rparr>) (Name samplePeriodic) [] ''periodic''
        = Inr False
   \<and> convertPeriodic sampleExtern (sampleOptions\<lparr>branches := [''main'']\<rparr>) [] [] samplePeriodic = Inr None
   \<and> convertPeriodics sampleExtern (sampleOptions\<lparr>branches := [''main'']\<rparr>) [] [] [] [samplePeriodic]
        = Inr []
   \<and> convertPeriodics sampleExtern sampleOptions [] [] [] [samplePeriodic]
        = Inr [samplePeriodic\<lparr>Name := ''nightly_private'',
             ExtraRefs := [zeroRefs\<lparr>Refs_Org := ''org-b'', Refs_Repo := ''repo-x''\<rparr>]\<rparr>]"
proof -
  have h: "branches (sampleOptions\<lparr>branches := [''main'']\<rparr>) \<noteq> []" by simp
  have k: "convertPeriodics sampleExtern sampleOptions [] [] [] [samplePeriodic]
        = Inr [samplePeriodic\<lparr>Name := ''nightly_private'',
             ExtraRefs := [zeroRefs\<lparr>Refs_Org := ''org-b'', Refs_Repo := ''repo-x''\<rparr>]\<rparr>]"
    by (simp add: andThen_def samplePeriodic_kept)
  from periodics_dropped_by_branch_filter [OF h, of sampleExtern samplePeriodic "[]" "[]" "[samplePeriodic]"]
  show ?thesis using h k by blast
qed

subsection \<open>OrgRemapper: the extra refs\<close>

lemma updateExtraRef_qualifies:
  assumes "extraRefs opt \<or> validateOrgRepo opt (Refs_Org ref) (Refs_Repo ref)"
  shows "updateExtraRef opt ref =
           ref\<lparr>Refs_Org := index (orgMap opt) (Refs_Org ref),
               Refs_CloneURI :=
                 (if sshClone opt
                  then ''git@'' @ gitHost @ '':'' @ index (orgMap opt) (Refs_Org ref) @ ''/''
                         @ Refs_Repo ref @ ''.git''
                  else Refs_CloneURI ref)\<rparr>"
  using assms by (auto simp: updateExtraRef_def Let_def)

lemma updateExtraRef_untouched:
  assumes "\<not> (extraRefs opt \<or> validateOrgRepo opt (Refs_Org ref) (Refs_Repo ref))"
  shows "updateExtraRef opt ref = ref"
  using assms by (simp add: updateExtraRef_def Let_def)

text \<open>
  Claim C5. \<open>updateExtraRefs\<close> keeps the list's length and order, and for each ref:
  if \<open>extraRefs\<close> (the force flag) is set or the ref's org and repo pass
  \<open>validateOrgRepo\<close>, the ref's org becomes its value under the org mapping (Go's map
  index: the empty string for an org without an entry, which only the force flag lets
  through) and, when \<open>sshClone\<close> is set, its clone URI becomes
  \<open>git@github.com:<mapped org>/<repo>.git\<close>, all other fields staying; a ref that does
  not qualify is the same record as before.
\<close>

theorem updateExtraRefs_each_ref:
  "length (updateExtraRefs opt refs) = length refs
   \<and> (\<forall>i<length refs.
        (extraRefs opt \<or> validateOrgRepo opt (Refs_Org (refs ! i)) (Refs_Repo (refs ! i)) \<longrightarrow>
           updateExtraRefs opt refs ! i =
             (refs ! i)\<lparr>Refs_Org := index (orgMap opt) (Refs_Org (refs ! i)),
               Refs_CloneURI :=
                 (if sshClone opt
                  then ''git@'' @ gitHost @ '':'' @ index (orgMap opt) (Refs_Org (refs ! i))
                         @ ''/'' @ Refs_Repo (refs ! i) @ ''.git''
                  else Refs_CloneURI (refs ! i))\<rparr>)
        \<and> (\<not> (extraRefs opt \<or> validateOrgRepo opt (Refs_Org (refs ! i)) (Refs_Repo (refs ! i))) \<longrightarrow>
           updateExtraRefs opt refs ! i = refs ! i))"
  using updateExtraRef_qualifies updateExtraRef_untouched
  by (simp add: updateExtraRefs_def)

theorem updateExtraRefs_each_ref_witness:
  "length (updateExtraRefs (sampleOptions\<lparr>sshClone := True\<rparr>)
     [zeroRefs\<lparr>Refs_Org := ''org-a'', Refs_Repo := ''repo-x''\<rparr>,
      zeroRefs\<lparr>Refs_Org := ''org-z'', Refs_Repo := ''repo-y'', Refs_CloneURI := ''https://z''\<rparr>]) = 2
   \<and> updateExtraRefs (sampleOptions\<lparr>sshClone := True\<rparr>)
     [zeroRefs\<lparr>Refs_Org := ''org-a'', Refs_Repo := ''repo-x''\<rparr>,
      zeroRefs\<lparr>Refs_Org := ''org-z'', Refs_Repo := ''repo-y'', Refs_CloneURI := ''https://z''\<rparr>] ! 0
     = zeroRefs\<lparr>Refs_Org := ''org-b'', Refs_Repo := ''repo-x'',
               Refs_CloneURI := ''git@github.com:org-b/repo-x.git''\<rparr>
   \<and> updateExtraRefs (sampleOptions\<lparr>sshClone := True\<rparr>)
     [zeroRefs\<lparr>Refs_Org := ''org-a'', Refs_Repo := ''repo-x''\<rparr>,
      zeroRefs\<lparr>Refs_Org := ''org-z'', Refs_Repo := ''repo-y'', Refs_CloneURI := ''https://z''\<rparr>] ! 1
     = zeroRefs\<lparr>Refs_Org := ''org-z'', Refs_Repo := ''repo-y'', Refs_CloneURI := ''https://z''\<rparr>"
proof -
  let ?opt = "sampleOptions\<lparr>sshClone := True\<rparr>"
  let ?refs = "[zeroRefs\<lparr>Refs_Org := ''org-a'', Refs_Repo := ''repo-x''\<rparr>,
      zeroRefs\<lparr>Refs_Org := ''org-z'', Refs_Repo := ''repo-y'', Refs_CloneURI := ''https://z''\<rparr>]"
  have v0: "validateOrgRepo ?opt ''org-a'' ''repo-x''"
    by (simp add: validateOrgRepo_def sampleOptions_def defaultOptions_def)
  have v1: "\<not> (extraRefs ?opt \<or> validateOrgRepo ?opt ''org-z'' ''repo-y'')"
    by (simp add: validateOrgRepo_def sampleOptions_def defaultOptions_def)
  note t = updateExtraRefs_each_ref [of ?opt ?refs]
  from t have len: "length (updateExtraRefs ?opt ?refs) = 2" by simp
  from t have "\<forall>i<2. (extraRefs ?opt \<or> validateOrgRepo ?opt (Refs_Org (?refs ! i)) (Refs_Repo (?refs ! i)) \<longrightarrow>
           updateExtraRefs ?opt ?refs ! i =
             (?refs ! i)\<lparr>Refs_Org := index (orgMap ?opt) (Refs_Org (?refs ! i)),
               Refs_CloneURI :=
                 (if sshClone ?opt
                  then ''git@'' @ gitHost @ '':'' @ index (orgMap ?opt) (Refs_Org (?refs ! i))
                         @ ''/'' @ Refs_Repo (?refs ! i) @ ''.git''
                  else Refs_CloneURI (?refs ! i))\<rparr>)
        \<and> (\<not> (extraRefs ?opt \<or> validateOrgRepo ?opt (Refs_Org (?refs ! i)) (Refs_Repo (?refs ! i))) \<longrightarrow>
           updateExtraRefs ?opt ?refs ! i = ?refs ! i)" by simp
  then have e0: "updateExtraRefs ?opt ?refs ! 0 = zeroRefs\<lparr>Refs_Org := ''org-b'', Refs_Repo := ''repo-x'',
               Refs_CloneURI := ''git@github.com:org-b/repo-x.git''\<rparr>"
    and e1: "updateExtraRefs ?opt ?refs ! 1 = zeroRefs\<lparr>Refs_Org := ''org-z'', Refs_Repo := ''repo-y'', Refs_CloneURI := ''https://z''\<rparr>"
    using v0 v1
    by (simp_all add: zeroRefs_def index_def sampleOptions_def defaultOptions_def gitHost_def)
  show ?thesis using len e0 e1 by blast
qed

subsection \<open>FieldUpdater: the node selector\<close>

lemma updateNodeSelector_ok:
  assumes "dom (selector opt) \<noteq> {}" and "Spec job = Some spec"
  shows "updateNodeSelector opt job =
           Inr (job\<lparr>Spec := Some (spec\<lparr>PodSpec_NodeSelector :=
             Some ((if overrideSelector opt \<or> PodSpec_NodeSelector spec = None then Map.empty
                    else entries (PodSpec_NodeSelector spec)) ++ selector opt)\<rparr>)\<rparr>)"
  using assms by (simp add: updateNodeSelector_def Let_def)

text \<open>
  Claim C7, amended. For every job with a runtime specification and every non-empty
  configured node-selector mapping: the job's selector becomes \<open>base ++ selector\<close>,
  where \<open>base\<close> is the empty mapping if override mode is enabled or the job had no
  selector, and the job's existing mapping otherwise; the overlay overwrites by key and
  keeps the other keys of \<open>base\<close>. The witness is the spec's example: \<open>{zone: us}\<close>
  onto \<open>{disk: ssd}\<close> gives \<open>{disk: ssd, zone: us}\<close> with override disabled and
  \<open>{zone: us}\<close> with override enabled.
\<close>

theorem updateNodeSelector_overlay:
  assumes "dom (selector opt) \<noteq> {}" and "Spec job = Some spec"
  shows "\<exists>base.
           base = (if overrideSelector opt \<or> PodSpec_NodeSelector spec = None then Map.empty
                   else entries (PodSpec_NodeSelector spec))
           \<and> updateNodeSelector opt job =
               Inr (job\<lparr>Spec := Some (spec\<lparr>PodSpec_NodeSelector := Some (base ++ selector opt)\<rparr>)\<rparr>)
           \<and> (\<forall>k. (base ++ selector opt) k =
                  (case selector opt k of Some v \<Rightarrow> Some v | None \<Rightarrow> base k))
           \<and> (\<not> overrideSelector opt \<longrightarrow> (\<forall>m. PodSpec_NodeSelector spec = Some m \<longrightarrow> base = m))"
  using updateNodeSelector_ok [OF assms]
  by (auto simp: map_add_def entries_def split: option.splits)

theorem updateNodeSelector_overlay_witness:
  "updateNodeSelector (defaultOptions\<lparr>selector := [''zone'' \<mapsto> ''us'']\<rparr>) ssdJob
     = Inr (zeroJobBase\<lparr>Spec := Some (zeroPodSpec\<lparr>PodSpec_NodeSelector :=
              Some [''disk'' \<mapsto> ''ssd'', ''zone'' \<mapsto> ''us'']\<rparr>)\<rparr>)
   \<and> updateNodeSelector (defaultOptions\<lparr>selector := [''zone'' \<mapsto> ''us''], overrideSelector := True\<rparr>) ssdJob
     = Inr (zeroJobBase\<lparr>Spec := Some (zeroPodSpec\<lparr>PodSpec_NodeSelector :=
              Some [''zone'' \<mapsto> ''us'']\<rparr>)\<rparr>)"
proof -
  let ?o1 = "defaultOptions\<lparr>selector := [''zone'' \<mapsto> ''us'']\<rparr>"
  let ?o2 = "defaultOptions\<lparr>selector := [''zone'' \<mapsto> ''us''], overrideSelector := True\<rparr>"
  let ?spec = "zeroPodSpec\<lparr>PodSpec_NodeSelector := Some [''disk'' \<mapsto> ''ssd'']\<rparr>"
  have d1: "dom (selector ?o1) \<noteq> {}" and d2: "dom (selector ?o2) \<noteq> {}" by simp_all
  have s: "Spec ssdJob = Some ?spec" by (simp add: ssdJob_def)
  have n1: "\<not> overrideSelector ?o1" by (simp add: defaultOptions_def)
  from updateNodeSelector_overlay [OF d1 s] n1
  have a: "updateNodeSelector ?o1 ssdJob
     = Inr (zeroJobBase\<lparr>Spec := Some (zeroPodSpec\<lparr>PodSpec_NodeSelector :=
              Some [''disk'' \<mapsto> ''ssd'', ''zone'' \<mapsto> ''us'']\<rparr>)\<rparr>)"
    by (simp add: ssdJob_def entries_def)
  from updateNodeSelector_overlay [OF d2 s]
  have b: "updateNodeSelector ?o2 ssdJob
     = Inr (zeroJobBase\<lparr>Spec := Some (zeroPodSpec\<lparr>PodSpec_NodeSelector :=
              Some [''zone'' \<mapsto> ''us'']\<rparr>)\<rparr>)"
    by (simp add: ssdJob_def)
  show ?thesis using a b by blast
qed

text \<open>
  Claim C7 as stated fails for an empty configured mapping: the guard of line 379
  returns before the override is looked at, so with override mode enabled the job's
  selector \<open>{disk: ssd}\<close> stays and is not replaced with an empty mapping.
\<close>

theorem updateNodeSelector_empty_selector_counterexample:
  "updateNodeSelector (defaultOptions\<lparr>overrideSelector := True\<rparr>) ssdJob = Inr ssdJob
   \<and> Spec ssdJob = Some (zeroPodSpec\<lparr>PodSpec_NodeSelector := Some [''disk'' \<mapsto> ''ssd'']\<rparr>)
   \<and> [''disk'' \<mapsto> ''ssd''] ''disk'' \<noteq> (Map.empty :: string \<rightharpoonup> string) ''disk''"
  by (simp add: updateNodeSelector_def defaultOptions_def ssdJob_def)

subsection \<open>PresetResolver: the label gate\<close>

lemma gate_iff:
  "(gate \<subseteq>\<^sub>m m) = (\<forall>k v. gate k = Some v \<longrightarrow> m k = Some v)"
  by (auto simp: map_le_def dom_def)

lemma mergePreset_gate_fails:
  assumes "\<not> (\<forall>k v. Preset_Labels preset k = Some v \<longrightarrow> entries lbls k = Some v)"
  shows "mergePreset lbls job preset = Inr job"
  using assms by (simp add: mergePreset_def gate_iff)

lemma gate_extra_labels:
  assumes "dom extra \<inter> dom (Preset_Labels preset) = {}"
  shows "(Preset_Labels preset \<subseteq>\<^sub>m entries (Some (entries lbls ++ extra))) =
         (Preset_Labels preset \<subseteq>\<^sub>m entries lbls)"
proof -
  have "\<And>k. k \<in> dom (Preset_Labels preset) \<Longrightarrow> (entries lbls ++ extra) k = entries lbls k"
    using assms by (auto simp: map_add_def split: option.splits)
  then show ?thesis by (auto simp: map_le_def entries_def)
qed

lemma mergePreset_extra_labels:
  assumes "dom extra \<inter> dom (Preset_Labels preset) = {}"
  shows "mergePreset (Some (entries lbls ++ extra)) job preset = mergePreset lbls job preset"
  unfolding mergePreset_def gate_extra_labels [OF assms] ..

text \<open>
  Claim C8. If some key of the preset's label-gate is missing from the job's labels or
  has another value there, \<open>mergePreset\<close> returns the job as it was (environment,
  volumes and volume mounts included), so the preset modifies the job only if every
  gated key is in the job's labels with the same value. Labels on keys that the gate
  does not mention change neither the gate's verdict nor the result: a job carrying
  them still matches.
\<close>

theorem mergePreset_label_gate:
  "(\<not> (\<forall>k v. Preset_Labels preset k = Some v \<longrightarrow> entries lbls k = Some v) \<longrightarrow>
      mergePreset lbls job preset = Inr job)
   \<and> (mergePreset lbls job preset \<noteq> Inr job \<longrightarrow>
      (\<forall>k v. Preset_Labels preset k = Some v \<longrightarrow> entries lbls k = Some v))
   \<and> (dom extra \<inter> dom (Preset_Labels preset) = {} \<longrightarrow>
      ((\<forall>k v. Preset_Labels preset k = Some v \<longrightarrow> (entries lbls ++ extra) k = Some v)
         = (\<forall>k v. Preset_Labels preset k = Some v \<longrightarrow> entries lbls k = Some v))
      \<and> mergePreset (Some (entries lbls ++ extra)) job preset = mergePreset lbls job preset)"
proof (intro conjI impI)
  assume "\<not> (\<forall>k v. Preset_Labels preset k = Some v \<longrightarrow> entries lbls k = Some v)"
  then show "mergePreset lbls job preset = Inr job" by (rule mergePreset_gate_fails)
next
  assume "mergePreset lbls job preset \<noteq> Inr job"
  then show "\<forall>k v. Preset_Labels preset k = Some v \<longrightarrow> entries lbls k = Some v"
    using mergePreset_gate_fails by blast
next
  assume d: "dom extra \<inter> dom (Preset_Labels preset) = {}"
  show "(\<forall>k v. Preset_Labels preset k = Some v \<longrightarrow> (entries lbls ++ extra) k = Some v)
         = (\<forall>k v. Preset_Labels preset k = Some v \<longrightarrow> entries lbls k = Some v)"
    using gate_extra_labels [OF d, of lbls] by (simp add: gate_iff [symmetric] entries_def)
  show "mergePreset (Some (entries lbls ++ extra)) job preset = mergePreset lbls job preset"
    using d by (rule mergePreset_extra_labels)
qed


lemma fooPreset_applies:
  "mergePreset (Some [''preset-foo'' \<mapsto> ''true'']) containerJob fooPreset =
     Inr (zeroJobBase\<lparr>Spec := Some (zeroPodSpec\<lparr>PodSpec_Containers :=
            [zeroContainer\<lparr>Container_Env := [envVar ''FOO'' ''bar'']\<rparr>]\<rparr>)\<rparr>)"
  by (simp add: mergePreset_def fooPreset_def zeroPreset_def containerJob_def entries_def
      map_le_def zeroPodSpec_def zeroContainer_def)



theorem mergePreset_label_gate_witness:
  "mergePreset (Some [''preset-foo'' \<mapsto> ''false'']) containerJob fooPreset = Inr containerJob
   \<and> mergePreset None containerJob fooPreset = Inr containerJob
   \<and> mergePreset (Some ([''preset-foo'' \<mapsto> ''true''] ++ [''team'' \<mapsto> ''infra''])) containerJob fooPreset
       = Inr (zeroJobBase\<lparr>Spec := Some (zeroPodSpec\<lparr>PodSpec_Containers :=
            [zeroContainer\<lparr>Container_Env := [envVar ''FOO'' ''bar'']\<rparr>]\<rparr>)\<rparr>)"
proof -
  have g: "Preset_Labels fooPreset ''preset-foo'' = Some ''true''"
    by (simp add: fooPreset_def zeroPreset_def)
  have n1: "entries (Some [''preset-foo'' \<mapsto> ''false'']) ''preset-foo'' \<noteq> Some ''true''"
    by (simp add: entries_def)
  have n2: "entries None ''preset-foo'' \<noteq> Some ''true''"
    by (simp add: entries_def)
  have f1: "\<not> (\<forall>k v. Preset_Labels fooPreset k = Some v \<longrightarrow>
               entries (Some [''preset-foo'' \<mapsto> ''false'']) k = Some v)"
    using g n1 by blast
  have f2: "\<not> (\<forall>k v. Preset_Labels fooPreset k = Some v \<longrightarrow> entries None k = Some v)"
    using g n2 by blast
  have d: "dom [''team'' \<mapsto> ''infra''] \<inter> dom (Preset_Labels fooPreset) = {}"
    by (simp add: fooPreset_def zeroPreset_def)
  have a: "mergePreset (Some [''preset-foo'' \<mapsto> ''false'']) containerJob fooPreset = Inr containerJob"
    using mergePreset_label_gate [of fooPreset "Some [''preset-foo'' \<mapsto> ''false'']" containerJob Map.empty]
      f1 by blast
  have b: "mergePreset None containerJob fooPreset = Inr containerJob"
    using mergePreset_label_gate [of fooPreset None containerJob Map.empty] f2 by blast
  have e: "entries (Some [''preset-foo'' \<mapsto> ''true'']) = [''preset-foo'' \<mapsto> ''true'']"
    by (simp add: entries_def)
  have "mergePreset (Some (entries (Some [''preset-foo'' \<mapsto> ''true'']) ++ [''team'' \<mapsto> ''infra'']))
          containerJob fooPreset
        = mergePreset (Some [''preset-foo'' \<mapsto> ''true'']) containerJob fooPreset"
    using mergePreset_label_gate [of fooPreset "Some [''preset-foo'' \<mapsto> ''true'']" containerJob
        "[''team'' \<mapsto> ''infra'']"] d by blast
  then have c: "mergePreset (Some ([''preset-foo'' \<mapsto> ''true''] ++ [''team'' \<mapsto> ''infra''])) containerJob fooPreset
       = Inr (zeroJobBase\<lparr>Spec := Some (zeroPodSpec\<lparr>PodSpec_Containers :=
            [zeroContainer\<lparr>Container_Env := [envVar ''FOO'' ''bar'']\<rparr>]\<rparr>)\<rparr>)"
    unfolding e fooPreset_applies .
  show ?thesis using a b c by blast
qed

subsection \<open>PathRouter and the remapped identity\<close>

lemma getOutPath_three:
  assumes "\<not> HasExtension x (output opt) yamlExt"
    and "FieldsFunc (TrimPrefix p inp) isSlash = pre @ [org, repo, file]"
  shows "getOutPath x opt p inp =
           (case orgMap opt org of
              Some newOrg \<Rightarrow>
                filepath_Join [output opt, GetTopLevelOrg x newOrg, repo,
                  RenameFile x (orgPattern x org) file (RemoveHost x newOrg)]
            | None \<Rightarrow> [])"
  using assms(1)
  by (simp add: getOutPath_def assms(2) Let_def nth_append eval_nat_numeral)

lemma getOutPath_two:
  assumes "\<not> HasExtension x (output opt) yamlExt"
    and "FieldsFunc (TrimPrefix p inp) isSlash = [org, file]"
  shows "getOutPath x opt p inp =
           (case orgMap opt org of
              Some newOrg \<Rightarrow>
                filepath_Join [output opt, GetTopLevelOrg x newOrg,
                  RenameFile x (orgPattern x org) file (RemoveHost x newOrg)]
            | None \<Rightarrow> [])"
  using assms(1)
  by (simp add: getOutPath_def assms(2) Let_def eval_nat_numeral)

lemma convertOrgRepoStr_unmapped:
  assumes "orgMap opt org = None" and "SplitOrgRepo x s = (org, repo)"
  shows "convertOrgRepoStr x opt s = []"
  using assms by (simp add: convertOrgRepoStr_def validateOrgRepo_def)

text \<open>
  Claim C6. For an organization with no entry in the org mapping and any repository,
  \<open>convertOrgRepoStr\<close> of a string that \<open>SplitOrgRepo\<close> splits into that organization
  and repository is the empty string; and, when the configured output is not itself a
  yaml file path, \<open>getOutPath\<close> is the empty string (no output path) for an input
  path with three or more segments below the input root whose third segment from the
  end is that organization, and for one with exactly two segments whose first is.
\<close>

theorem unmapped_org_yields_nothing:
  assumes "orgMap opt org = None"
  shows "(SplitOrgRepo x s = (org, repo) \<longrightarrow> convertOrgRepoStr x opt s = [])
         \<and> (\<not> HasExtension x (output opt) yamlExt \<longrightarrow>
              (FieldsFunc (TrimPrefix p inp) isSlash = pre @ [org, repo, file]
               \<or> FieldsFunc (TrimPrefix p inp) isSlash = [org, file]) \<longrightarrow>
              getOutPath x opt p inp = [])"
  using assms convertOrgRepoStr_unmapped [of opt org x s repo]
    getOutPath_three [of x opt p inp pre org repo "file"] getOutPath_two [of x opt p inp org "file"]
  by auto

lemma TrimPrefix_append: "TrimPrefix (inp @ rest) inp = rest"
  by (simp add: TrimPrefix_def HasPrefix_def)

lemma fieldsFrom_sep:
  assumes "f c"
  shows "fieldsFrom f cur (xs @ c # ys) = fieldsFrom f cur xs @ fieldsFrom f [] ys"
  using assms by (induction xs arbitrary: cur) auto

lemma FieldsFunc_sep:
  "FieldsFunc (xs @ CHR ''/'' # ys) isSlash = FieldsFunc xs isSlash @ FieldsFunc ys isSlash"
  by (simp add: FieldsFunc_def fieldsFrom_sep isSlash_def)

lemma fields_example:
  "FieldsFunc ''org-a/repo-x/job.yaml'' isSlash = [''org-a'', ''repo-x'', ''job.yaml'']"
  by (simp add: FieldsFunc_def isSlash_def)

lemma Join_example:
  "filepath_Join [''out/'', ''org-b'', ''repo-x'', ''job.yaml''] = ''out/org-b/repo-x/job.yaml''"
  by (simp add: filepath_Join_def Clean_def FieldsFunc_def isSlash_def Let_def)


lemma fields_below:
  "FieldsFunc (dir @ ''/org-a/repo-x/job.yaml'') isSlash =
     FieldsFunc dir isSlash @ [''org-a'', ''repo-x'', ''job.yaml'']"
  using FieldsFunc_sep [of dir "''org-a/repo-x/job.yaml''"] by (simp add: fields_example)

text \<open>
  Claim C2, amended. When the configured output is not itself a yaml file path: for
  every input path whose part below the input root has three or more segments, the
  last three being \<open>[org, repo, file]\<close>, the output path is \<open>filepath.Join\<close> of the
  output root, the top-level part of the mapped org, the repo, and the file renamed by
  \<open>RenameFile\<close> with the pattern \<open>^org\\b\<close> (host removed) and the mapped org (host
  removed) as replacement, if \<open>org\<close> has an entry in the org mapping; otherwise no
  output path is produced. In particular, for every input root and every directory
  below it, the input \<open>.../org-a/repo-x/job.yaml\<close> with \<open>org-a\<close> mapped to \<open>org-b\<close> and
  the output root \<open>out/\<close> gives \<open>out/org-b/repo-x/job.yaml\<close>, given that the helpers
  leave a file name without the org prefix alone and take \<open>org-b\<close> as its own top
  level.
\<close>

theorem getOutPath_three_segments:
  assumes "\<not> HasExtension x (output opt) yamlExt"
  shows "(FieldsFunc (TrimPrefix p inp) isSlash = pre @ [org, repo, file] \<longrightarrow>
            getOutPath x opt p inp =
              (case orgMap opt org of
                 Some newOrg \<Rightarrow>
                   filepath_Join [output opt, GetTopLevelOrg x newOrg, repo,
                     RenameFile x (''^'' @ RemoveHost x org @ [backslash, CHR ''b'']) file
                       (RemoveHost x newOrg)]
               | None \<Rightarrow> []))
         \<and> (output opt = ''out/'' \<and> orgMap opt ''org-a'' = Some ''org-b''
              \<and> GetTopLevelOrg x ''org-b'' = ''org-b''
              \<and> RenameFile x (''^'' @ RemoveHost x ''org-a'' @ [backslash, CHR ''b''])
                    ''job.yaml'' (RemoveHost x ''org-b'') = ''job.yaml'' \<longrightarrow>
            getOutPath x opt (inp @ dir @ ''/org-a/repo-x/job.yaml'') inp
              = ''out/org-b/repo-x/job.yaml'')"
proof (intro conjI impI)
  assume "FieldsFunc (TrimPrefix p inp) isSlash = pre @ [org, repo, file]"
  from getOutPath_three [OF assms this]
  show "getOutPath x opt p inp =
              (case orgMap opt org of
                 Some newOrg \<Rightarrow>
                   filepath_Join [output opt, GetTopLevelOrg x newOrg, repo,
                     RenameFile x (''^'' @ RemoveHost x org @ [backslash, CHR ''b'']) file
                       (RemoveHost x newOrg)]
               | None \<Rightarrow> [])"
    by (simp add: orgPattern_def split: option.splits)
next
  assume e: "output opt = ''out/'' \<and> orgMap opt ''org-a'' = Some ''org-b''
              \<and> GetTopLevelOrg x ''org-b'' = ''org-b''
              \<and> RenameFile x (''^'' @ RemoveHost x ''org-a'' @ [backslash, CHR ''b''])
                    ''job.yaml'' (RemoveHost x ''org-b'') = ''job.yaml''"
  have f: "FieldsFunc (TrimPrefix (inp @ dir @ ''/org-a/repo-x/job.yaml'') inp) isSlash
             = FieldsFunc dir isSlash @ [''org-a'', ''repo-x'', ''job.yaml'']"
    unfolding TrimPrefix_append by (rule fields_below)
  from getOutPath_three [OF assms f] e
  show "getOutPath x opt (inp @ dir @ ''/org-a/repo-x/job.yaml'') inp = ''out/org-b/repo-x/job.yaml''"
    by (simp add: orgPattern_def Join_example)
qed

lemma sample_not_yaml: "\<not> HasExtension sampleExtern ''out/'' yamlExt"
  by (simp add: sampleExtern_def spec_HasExtension_def HasSuffix_def)

lemma sample_rename_plain:
  "RenameFile sampleExtern (''^'' @ RemoveHost sampleExtern ''org-a'' @ [backslash, CHR ''b''])
     ''job.yaml'' (RemoveHost sampleExtern ''org-b'') = ''job.yaml''"
  by (simp add: sampleExtern_def spec_RenameFile_def spec_RemoveHost_def TrimPrefix_def
      HasPrefix_def HasSuffix_def gitHost_def backslash_def Let_def)

lemma sample_rename_prefixed:
  "RenameFile sampleExtern (''^'' @ RemoveHost sampleExtern ''org-a'' @ [backslash, CHR ''b''])
     ''org-a.repo-x.yaml'' (RemoveHost sampleExtern ''org-b'') = ''org-b.repo-x.yaml''"
  by (simp add: sampleExtern_def spec_RenameFile_def spec_RemoveHost_def TrimPrefix_def
      HasPrefix_def HasSuffix_def gitHost_def backslash_def Let_def)

lemma sample_top: "GetTopLevelOrg sampleExtern ''org-b'' = ''org-b''"
  by (simp add: sampleExtern_def spec_GetTopLevelOrg_def isSlash_def)

theorem getOutPath_three_segments_witness:
  "\<not> HasExtension sampleExtern (output (sampleOptions\<lparr>output := ''out/''\<rparr>)) yamlExt
   \<and> getOutPath sampleExtern (sampleOptions\<lparr>output := ''out/''\<rparr>)
        ''/jobs/org-a/repo-x/job.yaml'' ''/jobs'' = ''out/org-b/repo-x/job.yaml''
   \<and> getOutPath sampleExtern (sampleOptions\<lparr>output := ''out/''\<rparr>)
        ''/jobs/org-a/repo-x/org-a.repo-x.yaml'' ''/jobs'' = ''out/org-b/repo-x/org-b.repo-x.yaml''
   \<and> getOutPath sampleExtern (sampleOptions\<lparr>output := ''out/''\<rparr>)
        ''/jobs/org-z/repo-x/job.yaml'' ''/jobs'' = []"
proof -
  let ?opt = "sampleOptions\<lparr>output := ''out/''\<rparr>"
  have h: "\<not> HasExtension sampleExtern (output ?opt) yamlExt"
    using sample_not_yaml by simp
  note t = getOutPath_three_segments [OF h]
  have a: "getOutPath sampleExtern ?opt ''/jobs/org-a/repo-x/job.yaml'' ''/jobs''
             = ''out/org-b/repo-x/job.yaml''"
    using t [of "''/jobs/org-a/repo-x/job.yaml''" "''/jobs''" "[]" "''org-a''" "''repo-x''" "''job.yaml''"
            "[]"]
      sample_rename_plain sample_top
    by (simp add: sampleOptions_def)
  have b: "getOutPath sampleExtern ?opt ''/jobs/org-a/repo-x/org-a.repo-x.yaml'' ''/jobs''
             = ''out/org-b/repo-x/org-b.repo-x.yaml''"
    using t [of "''/jobs/org-a/repo-x/org-a.repo-x.yaml''" "''/jobs''" "[]" "''org-a''" "''repo-x''"
            "''org-a.repo-x.yaml''" "[]"]
      sample_rename_prefixed sample_top
    by (simp add: sampleOptions_def TrimPrefix_def HasPrefix_def FieldsFunc_def isSlash_def
        filepath_Join_def Clean_def Let_def)
  have c: "getOutPath sampleExtern ?opt ''/jobs/org-z/repo-x/job.yaml'' ''/jobs'' = []"
    using t [of "''/jobs/org-z/repo-x/job.yaml''" "''/jobs''" "[]" "''org-z''" "''repo-x''" "''job.yaml''"
            "[]"]
    by (simp add: sampleOptions_def defaultOptions_def TrimPrefix_def HasPrefix_def FieldsFunc_def isSlash_def)
  show ?thesis using h a b c by blast
qed

text \<open>
  Claim C2 as stated fails when the configured output is a yaml file: the first case
  of the switch returns it whatever the segments are, here for an organization that
  has no entry in the org mapping, where the claim says that no path is produced.
\<close>

theorem getOutPath_yaml_output_counterexample:
  "orgMap (defaultOptions\<lparr>output := ''out.yaml''\<rparr>) ''org-a'' = None
   \<and> FieldsFunc (TrimPrefix ''/jobs/org-a/repo-x/job.yaml'' ''/jobs'') isSlash
       = [''org-a'', ''repo-x'', ''job.yaml'']
   \<and> getOutPath sampleExtern (defaultOptions\<lparr>output := ''out.yaml''\<rparr>)
        ''/jobs/org-a/repo-x/job.yaml'' ''/jobs'' = ''out.yaml''"
  by (simp add: getOutPath_def sampleExtern_def spec_HasExtension_def HasSuffix_def
      defaultOptions_def TrimPrefix_def HasPrefix_def FieldsFunc_def isSlash_def)

theorem unmapped_org_yields_nothing_witness:
  "orgMap sampleOptions ''org-z'' = None
   \<and> convertOrgRepoStr sampleExtern sampleOptions ''org-z/repo-x'' = []
   \<and> getOutPath sampleExtern sampleOptions ''/jobs/org-z/repo-x/job.yaml'' ''/jobs'' = []
   \<and> getOutPath sampleExtern sampleOptions ''/jobs/org-z/job.yaml'' ''/jobs'' = []
   \<and> convertOrgRepoStr sampleExtern sampleOptions ''org-a/repo-x'' = ''org-b/repo-x''"
proof -
  have h: "orgMap sampleOptions ''org-z'' = None"
    by (simp add: sampleOptions_def defaultOptions_def)
  have s: "SplitOrgRepo sampleExtern ''org-z/repo-x'' = (''org-z'', ''repo-x'')"
    by (simp add: sampleExtern_def spec_SplitOrgRepo_def isSlash_def Let_def)
  have e: "\<not> HasExtension sampleExtern (output sampleOptions) yamlExt"
    by (simp add: sampleExtern_def spec_HasExtension_def HasSuffix_def sampleOptions_def
        defaultOptions_def)
  have f3: "FieldsFunc (TrimPrefix ''/jobs/org-z/repo-x/job.yaml'' ''/jobs'') isSlash
              = [] @ [''org-z'', ''repo-x'', ''job.yaml'']"
    by (simp add: TrimPrefix_def HasPrefix_def FieldsFunc_def isSlash_def)
  have f2: "FieldsFunc (TrimPrefix ''/jobs/org-z/job.yaml'' ''/jobs'') isSlash
              = [''org-z'', ''job.yaml'']"
    by (simp add: TrimPrefix_def HasPrefix_def FieldsFunc_def isSlash_def)
  note t = unmapped_org_yields_nothing [OF h, of sampleExtern]
  have a: "convertOrgRepoStr sampleExtern sampleOptions ''org-z/repo-x'' = []"
    using t [of "''org-z/repo-x''" "''repo-x''"] s by blast
  have b: "getOutPath sampleExtern sampleOptions ''/jobs/org-z/repo-x/job.yaml'' ''/jobs'' = []"
    using t [of _ "''repo-x''" "''/jobs/org-z/repo-x/job.yaml''" "''/jobs''" "[]" "''job.yaml''"] e f3
    by blast
  have c: "getOutPath sampleExtern sampleOptions ''/jobs/org-z/job.yaml'' ''/jobs'' = []"
    using t [of _ _ "''/jobs/org-z/job.yaml''" "''/jobs''" _ "''job.yaml''"] e f2
    by blast
  have d: "convertOrgRepoStr sampleExtern sampleOptions ''org-a/repo-x'' = ''org-b/repo-x''"
    by (simp add: convertOrgRepoStr_def sampleExtern_def spec_SplitOrgRepo_def isSlash_def Let_def
        validateOrgRepo_def sampleOptions_def defaultOptions_def index_def)
  show ?thesis using h a b c d by blast
qed

subsection \<open>PresetResolver: applying a preset twice\<close>

lemma mergeEnv_upsert: "mergeEnv penv es = upsertBy EnvVar_Name putValue penv es"
  by (induction es) (simp_all add: putValue_def)

lemma mergeVolume_upsert: "mergeVolume vol vs = upsertBy Volume_Name putWhole vol vs"
  by (induction vs) (simp_all add: putWhole_def)

lemma mergeVolumeMount_upsert:
  "mergeVolumeMount volm ms = upsertBy VolumeMount_Name putWhole volm ms"
  by (induction ms) (simp_all add: putWhole_def)

lemma wellPut_putValue: "wellPut EnvVar_Name putValue"
  by (simp add: wellPut_def putValue_def)

lemma wellPut_putWhole: "wellPut key putWhole"
  by (simp add: wellPut_def putWhole_def)

lemma upsert_keys: 
  assumes "wellPut key put"
  shows "key ` set (upsertBy key put n xs) = insert (key n) (key ` set xs)"
  using assms by (induction xs) (auto simp: wellPut_def)

lemma upsert_present:
  "key n \<in> key ` set xs \<Longrightarrow> upsertBy key put n xs = setFirst key put n xs"
  by (induction xs) auto

lemma upsert_absent:
  "key n \<notin> key ` set xs \<Longrightarrow> upsertBy key put n xs = xs @ [n]"
  by (induction xs) auto

lemma setFirst_keys:
  assumes "wellPut key put"
  shows "map key (setFirst key put n xs) = map key xs"
  using assms by (induction xs) (auto simp: wellPut_def)

lemma setFirst_keyset:
  assumes "wellPut key put"
  shows "key ` set (setFirst key put n xs) = key ` set xs"
  using setFirst_keys [OF assms, of n xs] by (metis list.set_map)

lemma setFirst_same:
  assumes "wellPut key put" and "key a = key b"
  shows "setFirst key put b (setFirst key put a xs) = setFirst key put b xs"
  using assms by (induction xs) (auto simp: wellPut_def)

lemma setFirst_swap:
  assumes "wellPut key put" and "key a \<noteq> key b"
  shows "setFirst key put a (setFirst key put b xs) = setFirst key put b (setFirst key put a xs)"
  using assms by (induction xs) (auto simp: wellPut_def)

lemma setFirst_fold_absorb:
  assumes "wellPut key put" and "key a = key n"
  shows "setFirst key put n (fold (setFirst key put) es (setFirst key put a xs))
           = setFirst key put n (fold (setFirst key put) es xs)"
  using assms
proof (induction es arbitrary: xs)
  case Nil
  then show ?case by (simp add: setFirst_same)
next
  case (Cons e es)
  show ?case
  proof (cases "key e = key a")
    case True
    then show ?thesis using Cons.prems by (simp add: setFirst_same)
  next
    case False
    then have "setFirst key put e (setFirst key put a xs)
                 = setFirst key put a (setFirst key put e xs)"
      using Cons.prems(1) by (simp add: setFirst_swap)
    then show ?thesis using Cons.IH [OF Cons.prems] by simp
  qed
qed

lemma setFirst_append_other:
  "key a \<noteq> key n \<Longrightarrow> setFirst key put a (xs @ [n]) = setFirst key put a xs @ [n]"
  by (induction xs) auto

lemma setFirst_append_new:
  "key n \<notin> key ` set xs \<Longrightarrow> setFirst key put n (xs @ [n]) = xs @ [put n n]"
  by (induction xs) auto

lemma fold_setFirst_append:
  assumes "key n \<notin> key ` set es"
  shows "fold (setFirst key put) es (xs @ [n]) = fold (setFirst key put) es xs @ [n]"
  using assms by (induction es arbitrary: xs) (auto simp: setFirst_append_other)

lemma fold_upsert_present:
  assumes "wellPut key put" and "key ` set es \<subseteq> key ` set xs"
  shows "fold (upsertBy key put) es xs = fold (setFirst key put) es xs"
  using assms
proof (induction es arbitrary: xs)
  case Nil
  then show ?case by simp
next
  case (Cons e es)
  have p: "key e \<in> key ` set xs" using Cons.prems(2) by simp
  have k: "key ` set es \<subseteq> key ` set (setFirst key put e xs)"
    using Cons.prems by (simp add: setFirst_keyset)
  show ?case using Cons.IH [OF Cons.prems(1) k] p by (simp add: upsert_present)
qed

lemma fold_upsert_keys:
  assumes "wellPut key put"
  shows "key ` set (fold (upsertBy key put) es xs) = key ` set es \<union> key ` set xs"
  using assms by (induction es arbitrary: xs) (auto simp: upsert_keys)

lemma fold_upsert_fixed:
  assumes "wellPut key put"
  shows "fold (setFirst key put) es (fold (upsertBy key put) es xs)
           = fold (upsertBy key put) es xs"
proof (induction es rule: rev_induct)
  case Nil
  then show ?case by simp
next
  case (snoc e es)
  let ?M = "fold (upsertBy key put) es xs"
  have ih: "fold (setFirst key put) es ?M = ?M" by (rule snoc.IH)
  show ?case
  proof (cases "key e \<in> key ` set ?M")
    case True
    then have u: "upsertBy key put e ?M = setFirst key put e ?M" by (rule upsert_present)
    show ?thesis
      using setFirst_fold_absorb [OF assms refl, of e es ?M] by (simp add: u ih)
  next
    case False
    then have u: "upsertBy key put e ?M = ?M @ [e]" by (rule upsert_absent)
    have "key e \<notin> key ` set es" using False assms by (simp add: fold_upsert_keys)
    then have "fold (setFirst key put) es (?M @ [e]) = ?M @ [e]"
      by (simp add: fold_setFirst_append ih)
    moreover have "setFirst key put e (?M @ [e]) = ?M @ [e]"
      using False assms by (simp add: setFirst_append_new wellPut_def)
    ultimately show ?thesis by (simp add: u)
  qed
qed

lemma fold_upsert_idem:
  assumes "wellPut key put"
  shows "fold (upsertBy key put) es (fold (upsertBy key put) es xs)
           = fold (upsertBy key put) es xs"
proof -
  have "key ` set es \<subseteq> key ` set (fold (upsertBy key put) es xs)"
    using assms by (simp add: fold_upsert_keys)
  from fold_upsert_present [OF assms this] show ?thesis
    by (simp add: fold_upsert_fixed [OF assms])
qed

lemma fold_mergeEnv: "fold mergeEnv es xs = fold (upsertBy EnvVar_Name putValue) es xs"
  by (induction es arbitrary: xs) (simp_all add: mergeEnv_upsert)

lemma fold_mergeVolume: "fold mergeVolume es xs = fold (upsertBy Volume_Name putWhole) es xs"
  by (induction es arbitrary: xs) (simp_all add: mergeVolume_upsert)

lemma fold_mergeVolumeMount:
  "fold mergeVolumeMount es xs = fold (upsertBy VolumeMount_Name putWhole) es xs"
  by (induction es arbitrary: xs) (simp_all add: mergeVolumeMount_upsert)

lemma fold_mergeEnv_idem: "fold mergeEnv es (fold mergeEnv es xs) = fold mergeEnv es xs"
  by (simp add: fold_mergeEnv fold_upsert_idem [OF wellPut_putValue])

lemma fold_mergeVolume_idem:
  "fold mergeVolume es (fold mergeVolume es xs) = fold mergeVolume es xs"
  by (simp add: fold_mergeVolume fold_upsert_idem [OF wellPut_putWhole])

lemma fold_mergeVolumeMount_idem:
  "fold mergeVolumeMount es (fold mergeVolumeMount es xs) = fold mergeVolumeMount es xs"
  by (simp add: fold_mergeVolumeMount fold_upsert_idem [OF wellPut_putWhole])

text \<open>The loops over the containers, container by container.\<close>

lemma fold_env_containers:
  "fold (\<lambda>penv cs. map (\<lambda>c. c\<lparr>Container_Env := mergeEnv penv (Container_Env c)\<rparr>) cs) es cs
     = map (\<lambda>c. c\<lparr>Container_Env := fold mergeEnv es (Container_Env c)\<rparr>) cs"
  by (induction es arbitrary: cs) (simp_all add: o_def)

lemma fold_mount_containers:
  "fold (\<lambda>volm cs. map (\<lambda>c. c\<lparr>Container_VolumeMounts :=
                              mergeVolumeMount volm (Container_VolumeMounts c)\<rparr>) cs) ms cs
     = map (\<lambda>c. c\<lparr>Container_VolumeMounts :=
                     fold mergeVolumeMount ms (Container_VolumeMounts c)\<rparr>) cs"
  by (induction ms arbitrary: cs) (simp_all add: o_def)

lemma mergePreset_applies:
  assumes "Spec job = Some spec" and "Preset_Labels preset \<subseteq>\<^sub>m entries lbls"
  shows "mergePreset lbls job preset = Inr (job\<lparr>Spec := Some (mergedSpec preset spec)\<rparr>)"
  using assms
  by (simp add: mergePreset_def Let_def fold_env_containers fold_mount_containers
      mergedSpec_def mergedContainer_def o_def)

lemma mergedContainer_idem:
  "mergedContainer preset (mergedContainer preset c) = mergedContainer preset c"
  by (simp add: mergedContainer_def fold_mergeEnv_idem fold_mergeVolumeMount_idem)

lemma mergedSpec_idem: "mergedSpec preset (mergedSpec preset spec) = mergedSpec preset spec"
  by (simp add: mergedSpec_def fold_mergeVolume_idem mergedContainer_idem o_def)

lemma mergePreset_twice:
  assumes "Spec job = Some spec" and "Preset_Labels preset \<subseteq>\<^sub>m entries lbls"
  shows "mergePreset lbls (job\<lparr>Spec := Some (mergedSpec preset spec)\<rparr>) preset
           = Inr (job\<lparr>Spec := Some (mergedSpec preset spec)\<rparr>)"
  using mergePreset_applies [of "job\<lparr>Spec := Some (mergedSpec preset spec)\<rparr>"
      "mergedSpec preset spec" preset lbls] assms(2)
  by (simp add: mergedSpec_idem)

text \<open>The entries of one name, through one merge and through all of them.\<close>

lemma named_mergeEnv:
  "filter (\<lambda>e. EnvVar_Name e = n) (mergeEnv penv es) =
     (if EnvVar_Name penv = n then
        (case filter (\<lambda>e. EnvVar_Name e = n) es of
           [] \<Rightarrow> [penv]
         | y # ys \<Rightarrow> y\<lparr>EnvVar_Value := EnvVar_Value penv\<rparr> # ys)
      else filter (\<lambda>e. EnvVar_Name e = n) es)"
  by (induction es) auto

lemma named_fold_mergeEnv_other:
  assumes "n \<notin> EnvVar_Name ` set pes"
  shows "filter (\<lambda>e. EnvVar_Name e = n) (fold mergeEnv pes es) = filter (\<lambda>e. EnvVar_Name e = n) es"
  using assms by (induction pes arbitrary: es) (auto simp: named_mergeEnv)

lemma presetEnvValue_None: "(presetEnvValue pes n = None) = (n \<notin> EnvVar_Name ` set pes)"
  by (induction pes) (auto split: option.splits)

lemma named_fold_mergeEnv:
  assumes "n \<in> EnvVar_Name ` set pes" and "length (filter (\<lambda>e. EnvVar_Name e = n) es) \<le> 1"
  shows "\<exists>y. filter (\<lambda>e. EnvVar_Name e = n) (fold mergeEnv pes es) = [y]
              \<and> presetEnvValue pes n = Some (EnvVar_Value y)"
  using assms
proof (induction pes arbitrary: es)
  case Nil
  then show ?case by simp
next
  case (Cons p pes)
  let ?es' = "mergeEnv p es"
  have len: "length (filter (\<lambda>e. EnvVar_Name e = n) ?es') \<le> 1"
    using Cons.prems(2) by (auto simp: named_mergeEnv split: list.splits)
  show ?case
  proof (cases "n \<in> EnvVar_Name ` set pes")
    case True
    from Cons.IH [OF True len] obtain y where
      y: "filter (\<lambda>e. EnvVar_Name e = n) (fold mergeEnv pes ?es') = [y]"
         "presetEnvValue pes n = Some (EnvVar_Value y)" by blast
    then show ?thesis by simp
  next
    case False
    then have pn: "EnvVar_Name p = n" using Cons.prems(1) by auto
    have none: "presetEnvValue pes n = None" using False by (simp add: presetEnvValue_None)
    have same: "filter (\<lambda>e. EnvVar_Name e = n) (fold mergeEnv pes ?es')
                  = filter (\<lambda>e. EnvVar_Name e = n) ?es'"
      using False by (rule named_fold_mergeEnv_other)
    have "\<exists>y. filter (\<lambda>e. EnvVar_Name e = n) ?es' = [y] \<and> EnvVar_Value y = EnvVar_Value p"
      using Cons.prems(2) pn by (auto simp: named_mergeEnv split: list.splits)
    then show ?thesis using same none pn by auto
  qed
qed

text \<open>
  Claim C4, amended. For every job with a runtime specification and every preset
  whose label-gate the job's labels satisfy, applying the preset twice in succession
  yields the same job as applying it once. Each container whose environment had at
  most one entry of a preset variable's name before ends with exactly one entry of
  that name, holding the value of the preset's last variable of that name: the merge
  overwrites the first existing variable of the name and appends only when there is
  none.
\<close>

theorem mergePreset_idempotent:
  assumes "Spec job = Some spec"
    and "\<forall>k v. Preset_Labels preset k = Some v \<longrightarrow> entries lbls k = Some v"
  shows "\<exists>job1 spec1.
           mergePreset lbls job preset = Inr job1
           \<and> mergePreset lbls job1 preset = Inr job1
           \<and> Spec job1 = Some spec1
           \<and> length (PodSpec_Containers spec1) = length (PodSpec_Containers spec)
           \<and> (\<forall>i<length (PodSpec_Containers spec).
                \<forall>n\<in>EnvVar_Name ` set (Preset_Env preset).
                  length (filter (\<lambda>e. EnvVar_Name e = n)
                            (Container_Env (PodSpec_Containers spec ! i))) \<le> 1 \<longrightarrow>
                  (\<exists>e. filter (\<lambda>e. EnvVar_Name e = n)
                          (Container_Env (PodSpec_Containers spec1 ! i)) = [e]
                       \<and> presetEnvValue (Preset_Env preset) n = Some (EnvVar_Value e)))"
proof -
  have gate: "Preset_Labels preset \<subseteq>\<^sub>m entries lbls"
    using assms(2) by (simp add: gate_iff)
  let ?spec1 = "mergedSpec preset spec"
  let ?job1 = "job\<lparr>Spec := Some ?spec1\<rparr>"
  have once: "mergePreset lbls job preset = Inr ?job1"
    using assms(1) gate by (rule mergePreset_applies)
  have twice: "mergePreset lbls ?job1 preset = Inr ?job1"
    using assms(1) gate by (rule mergePreset_twice)
  have len: "length (PodSpec_Containers ?spec1) = length (PodSpec_Containers spec)"
    by (simp add: mergedSpec_def)
  have one: "\<forall>i<length (PodSpec_Containers spec).
                \<forall>n\<in>EnvVar_Name ` set (Preset_Env preset).
                  length (filter (\<lambda>e. EnvVar_Name e = n)
                            (Container_Env (PodSpec_Containers spec ! i))) \<le> 1 \<longrightarrow>
                  (\<exists>e. filter (\<lambda>e. EnvVar_Name e = n)
                          (Container_Env (PodSpec_Containers ?spec1 ! i)) = [e]
                       \<and> presetEnvValue (Preset_Env preset) n = Some (EnvVar_Value e))"
  proof (intro allI impI ballI)
    fix i n
    assume i: "i < length (PodSpec_Containers spec)"
      and n: "n \<in> EnvVar_Name ` set (Preset_Env preset)"
      and l: "length (filter (\<lambda>e. EnvVar_Name e = n)
                        (Container_Env (PodSpec_Containers spec ! i))) \<le> 1"
    have "Container_Env (PodSpec_Containers ?spec1 ! i)
            = fold mergeEnv (Preset_Env preset) (Container_Env (PodSpec_Containers spec ! i))"
      using i by (simp add: mergedSpec_def mergedContainer_def)
    then show "\<exists>e. filter (\<lambda>e. EnvVar_Name e = n)
                          (Container_Env (PodSpec_Containers ?spec1 ! i)) = [e]
                       \<and> presetEnvValue (Preset_Env preset) n = Some (EnvVar_Value e)"
      using named_fold_mergeEnv [OF n l] by simp
  qed
  have sp: "Spec ?job1 = Some ?spec1" by simp
  show ?thesis using once twice sp len one by blast
qed

theorem mergePreset_idempotent_witness:
  "mergePreset (Some [''preset-foo'' \<mapsto> ''true'']) containerJob fooPreset =
     Inr (zeroJobBase\<lparr>Spec := Some (zeroPodSpec\<lparr>PodSpec_Containers :=
            [zeroContainer\<lparr>Container_Env := [envVar ''FOO'' ''bar'']\<rparr>]\<rparr>)\<rparr>)
   \<and> mergePreset (Some [''preset-foo'' \<mapsto> ''true''])
       (zeroJobBase\<lparr>Spec := Some (zeroPodSpec\<lparr>PodSpec_Containers :=
            [zeroContainer\<lparr>Container_Env := [envVar ''FOO'' ''bar'']\<rparr>]\<rparr>)\<rparr>) fooPreset =
     Inr (zeroJobBase\<lparr>Spec := Some (zeroPodSpec\<lparr>PodSpec_Containers :=
            [zeroContainer\<lparr>Container_Env := [envVar ''FOO'' ''bar'']\<rparr>]\<rparr>)\<rparr>)"
proof -
  have s: "Spec containerJob = Some (zeroPodSpec\<lparr>PodSpec_Containers := [zeroContainer]\<rparr>)"
    by (simp add: containerJob_def)
  have g: "\<forall>k v. Preset_Labels fooPreset k = Some v \<longrightarrow>
             entries (Some [''preset-foo'' \<mapsto> ''true'']) k = Some v"
    by (simp add: fooPreset_def zeroPreset_def entries_def)
  from mergePreset_idempotent [OF s g]
  obtain job1 where
    j: "mergePreset (Some [''preset-foo'' \<mapsto> ''true'']) containerJob fooPreset = Inr job1"
       "mergePreset (Some [''preset-foo'' \<mapsto> ''true'']) job1 fooPreset = Inr job1"
    by blast
  from j(1) have "job1 = zeroJobBase\<lparr>Spec := Some (zeroPodSpec\<lparr>PodSpec_Containers :=
            [zeroContainer\<lparr>Container_Env := [envVar ''FOO'' ''bar'']\<rparr>]\<rparr>)\<rparr>"
    by (simp add: fooPreset_applies)
  then show ?thesis using j by simp
qed

text \<open>
  Claim C4 as stated fails for a container that already has two variables of one name:
  the merge overwrites the first and leaves the second, so the environment ends with
  two entries named \<open>A\<close>, one of them not holding the preset's value.
\<close>

theorem mergePreset_duplicate_names_counterexample:
  "mergePreset None dupJob aPreset =
     Inr (zeroJobBase\<lparr>Spec := Some (zeroPodSpec\<lparr>PodSpec_Containers :=
            [zeroContainer\<lparr>Container_Env := [envVar ''A'' ''1'', envVar ''A'' ''0'']\<rparr>]\<rparr>)\<rparr>)"
  by (simp add: mergePreset_def dupJob_def aPreset_def zeroPreset_def entries_def
      zeroPodSpec_def zeroContainer_def envVar_def)

end
